(* ===== verification/Prelude.thy ===== *)
theory Prelude
  imports Main "HOL-Library.Word"
begin

text \<open>
  Shared vocabulary of the development: bytes as 8-bit words, the Python
  slicing operations the transport code applies to \<open>bytes\<close> values, and the
  lemma collections the component theories feed and use.

  Python's \<open>bytes\<close> is a sequence of values 0..255; it is modelled as a list
  of \<open>8 word\<close>. Slicing never raises in Python, and each slice used by
  \<open>transports.py\<close> is a total HOL list function with the same result on
  every length, including the short ones:
  \<^item> \<open>xs[1:]\<close> is \<open>drop 1 xs\<close>;
  \<^item> \<open>xs[:-1]\<close> is \<open>butlast xs\<close>;
  \<^item> \<open>xs[:-2]\<close> is \<open>take (length xs - 2) xs\<close> (nat subtraction stops at 0,
    as the slice of a short sequence is empty);
  \<^item> \<open>xs[-1:]\<close> is \<open>drop (length xs - 1) xs\<close>.
\<close>

unbundle bit_operations_syntax

type_synonym byte = "8 word"
type_synonym bytes = "byte list"

named_theorems slice_simps "equations for the Python slices on bytes"
named_theorems xor_simps "algebra of XOR on bytes"

subsection \<open>Python slices\<close>

definition py_drop_last2 :: "'a list \<Rightarrow> 'a list" where
  "py_drop_last2 xs = take (length xs - 2) xs"

definition py_last1 :: "'a list \<Rightarrow> 'a list" where
  "py_last1 xs = drop (length xs - 1) xs"

lemma py_drop_last2_append2 [slice_simps]:
  "py_drop_last2 (xs @ [a, b]) = xs"
  by (simp add: py_drop_last2_def)

lemma py_drop_last2_Cons_append2 [slice_simps]:
  "py_drop_last2 (x # xs @ [a, b]) = x # xs"
  by (simp add: py_drop_last2_def)

lemma py_drop_last2_append_append [slice_simps]:
  "py_drop_last2 (xs @ [a] @ [b]) = xs"
  by (simp add: py_drop_last2_def)

lemma py_last1_snoc [slice_simps]:
  "py_last1 (xs @ [a]) = [a]"
  by (simp add: py_last1_def)

lemma py_last1_Nil [slice_simps]:
  "py_last1 [] = []"
  by (simp add: py_last1_def)

lemma butlast_snoc_append [slice_simps]:
  "butlast (xs @ ys @ [a]) = xs @ ys"
  by (simp flip: append_assoc)

subsection \<open>XOR on bytes\<close>

lemma xor_cancel_left [xor_simps]:
  fixes a b :: byte
  shows "a XOR (a XOR b) = b"
  by (simp flip: xor.assoc)

lemma xor_eq_zero_iff [xor_simps]:
  fixes a b :: byte
  shows "(a XOR b = 0) = (a = b)"
proof
  assume "a XOR b = 0"
  then have "a XOR (a XOR b) = a" by simp
  then show "a = b" by (simp add: xor_cancel_left)
qed simp

lemma xor_left_inj [xor_simps]:
  fixes a b c :: byte
  shows "(c XOR a = c XOR b) = (a = b)"
  by (metis xor_cancel_left)

lemma xor_stays_iff [xor_simps]:
  fixes c d :: byte
  shows "(c XOR d = c) = (d = 0)"
  using xor_left_inj [of c d 0] by simp

end
