(* ===== verification/Constants.thy ===== *)
theory Constants
  imports Prelude
begin

text \<open>
  The protocol constants the transport layer takes from the external
  \<open>iec62056_21.constants\<close> module (not under \<open>src/\<close>; modelled from the
  spec, section 6): the control characters as one-character strings, the
  line terminator, and the text encoding that turns them into bytes.
  The encoding is Latin-1, which maps every character of code below 256 to
  the byte of the same value; Isabelle's \<open>char\<close> has exactly those codes, so
  \<open>encode\<close> is total and one byte per character.
\<close>

definition SOH :: byte where "SOH = 0x01"
definition STX :: byte where "STX = 0x02"
definition ETX :: byte where "ETX = 0x03"
definition EOT :: byte where "EOT = 0x04"

definition ACK :: string where "ACK = [CHR 0x06]"
definition NACK :: string where "NACK = [CHR 0x15]"
definition LINE_END :: string where "LINE_END = [CHR 0x0D, CHR 0x0A]"

definition encode :: "string \<Rightarrow> bytes" where
  "encode s = map (\<lambda>c. of_nat (of_char c)) s"

abbreviation ACK_bytes :: bytes where "ACK_bytes \<equiv> encode ACK"
abbreviation NACK_bytes :: bytes where "NACK_bytes \<equiv> encode NACK"
abbreviation LINE_END_bytes :: bytes where "LINE_END_bytes \<equiv> encode LINE_END"

lemmas control_defs = SOH_def STX_def ETX_def EOT_def

lemma encode_ACK [simp]: "ACK_bytes = [0x06]"
  by (simp add: encode_def ACK_def)

lemma encode_NACK [simp]: "NACK_bytes = [0x15]"
  by (simp add: encode_def NACK_def)

lemma encode_LINE_END [simp]: "LINE_END_bytes = [0x0D, 0x0A]"
  by (simp add: encode_def LINE_END_def)

lemma control_distinct [simp]:
  "SOH \<noteq> STX" "SOH \<noteq> ETX" "SOH \<noteq> EOT" "STX \<noteq> ETX" "STX \<noteq> EOT" "ETX \<noteq> EOT"
  "STX \<noteq> SOH" "ETX \<noteq> SOH" "EOT \<noteq> SOH" "ETX \<noteq> STX" "EOT \<noteq> STX" "EOT \<noteq> ETX"
  by (simp_all add: control_defs)

lemma ACK_ne_NACK [simp]: "ACK_bytes \<noteq> NACK_bytes"
  by simp

end
