(* ===== verification/Checksum.thy ===== *)
theory Checksum
  imports Constants
begin

text \<open>
  The checksum unit: the block check character (BCC) of IEC 62056-21 as the
  transport code uses it through \<open>utils.bcc_valid\<close> and \<open>utils.add_bcc\<close>
  (module \<open>iec62056_21.utils\<close>, not under \<open>src/\<close>; modelled from the spec,
  section 4.1): \<open>compute\<close> is the running XOR of the bytes, \<open>verify\<close>
  recomputes it over every byte but the last and compares with the last,
  \<open>add_bcc\<close> appends the BCC of a buffer to it.

  The lemmas: the BCC of a concatenation is the XOR of the BCCs (so it can be
  accumulated block by block), \<open>add_bcc\<close> always produces a buffer that
  verifies (the round trip), and the detection of any single corrupted
  byte.
\<close>

definition calculate_bcc :: "bytes \<Rightarrow> byte" where
  "calculate_bcc data = fold (\<lambda>b acc. acc XOR b) data 0"

definition bcc_valid :: "bytes \<Rightarrow> bool" where
  "bcc_valid message = (py_last1 message = [calculate_bcc (butlast message)])"

definition add_bcc :: "bytes \<Rightarrow> bytes" where
  "add_bcc data = data @ [calculate_bcc data]"

subsection \<open>The running XOR\<close>

lemma fold_xor_acc:
  "fold (\<lambda>b acc. acc XOR b) data a = a XOR fold (\<lambda>b acc. acc XOR b) data (0::byte)"
proof (induction data arbitrary: a)
  case Nil
  then show ?case by simp
next
  case (Cons x xs)
  have "fold (\<lambda>b acc. acc XOR b) (x # xs) a = fold (\<lambda>b acc. acc XOR b) xs (a XOR x)"
    by simp
  also have "\<dots> = (a XOR x) XOR fold (\<lambda>b acc. acc XOR b) xs 0"
    by (rule Cons.IH)
  also have "\<dots> = a XOR fold (\<lambda>b acc. acc XOR b) (x # xs) 0"
    using Cons.IH [of x] by (simp add: xor.assoc)
  finally show ?case .
qed

lemma calculate_bcc_Nil [simp]: "calculate_bcc [] = 0"
  by (simp add: calculate_bcc_def)

lemma calculate_bcc_Cons [simp]:
  "calculate_bcc (x # xs) = x XOR calculate_bcc xs"
  by (simp add: calculate_bcc_def fold_xor_acc [of _ x])

lemma calculate_bcc_append [simp]:
  "calculate_bcc (xs @ ys) = calculate_bcc xs XOR calculate_bcc ys"
  by (induction xs) (simp_all add: xor.assoc)

lemma calculate_bcc_single [simp]: "calculate_bcc [x] = x"
  by simp

subsection \<open>Verification and the round trip\<close>

lemma bcc_valid_snoc [simp]:
  "bcc_valid (xs @ [c]) = (c = calculate_bcc xs)"
  by (auto simp add: bcc_valid_def slice_simps)

lemma bcc_valid_Nil [simp]: "\<not> bcc_valid []"
  by (simp add: bcc_valid_def slice_simps)

lemma add_bcc_nonempty [simp]: "add_bcc d \<noteq> []"
  by (simp add: add_bcc_def)

lemma butlast_add_bcc [simp]: "butlast (add_bcc d) = d"
  by (simp add: add_bcc_def)

lemma calculate_bcc_update:
  "i < length ys \<Longrightarrow>
   calculate_bcc (ys[i := x]) = calculate_bcc ys XOR ys ! i XOR x"
proof -
  assume i: "i < length ys"
  have ys: "ys = take i ys @ ys ! i # drop (Suc i) ys"
    using i by (simp add: id_take_nth_drop)
  have upd: "ys[i := x] = take i ys @ x # drop (Suc i) ys"
    using i by (simp add: upd_conv_take_nth_drop)
  have "calculate_bcc ys XOR ys ! i XOR x
      = calculate_bcc (take i ys) XOR (ys ! i XOR ys ! i) XOR x XOR calculate_bcc (drop (Suc i) ys)"
    by (subst ys) (simp add: ac_simps)
  also have "\<dots> = calculate_bcc (ys[i := x])"
    by (simp add: upd ac_simps)
  finally show ?thesis by simp
qed

text \<open>
  The round trip: whatever buffer \<open>add_bcc\<close> is applied to, the result
  passes \<open>bcc_valid\<close>.
\<close>

lemma add_bcc_roundtrip: "bcc_valid (add_bcc d)"
  by (simp add: add_bcc_def)

text \<open>
  Error detection: replacing any one byte of a buffer that verifies (a
  payload byte, a control byte or the BCC itself) by a different value gives
  a buffer that no longer verifies.
\<close>

lemma bcc_detects_single_corruption:
  assumes valid: "bcc_valid m" and i: "i < length m" and x: "x \<noteq> m ! i"
  shows "\<not> bcc_valid (m[i := x])"
proof -
  from valid obtain ys where m: "m = ys @ [calculate_bcc ys]"
    by (cases m rule: rev_cases) auto
  show ?thesis
  proof (cases "i < length ys")
    case True
    with m x have "ys ! i \<noteq> x" by (simp add: nth_append)
    then have "calculate_bcc ys XOR ys ! i XOR x \<noteq> calculate_bcc ys"
      by (simp add: xor.assoc xor_simps)
    with True m show ?thesis
      by (simp add: calculate_bcc_update list_update_append)
  next
    case False
    with i m have "i = length ys" by simp
    with m x show ?thesis by (simp add: list_update_append)
  qed
qed

end
