(* ===== verification/Transport.thy ===== *)
theory Transport
  imports Constants Complex_Main "HOL-Library.Sublist"
begin

text \<open>
  The transport capability of \<open>src/iec62056_21/transports.py\<close>: the classes
  \<open>BaseTransport\<close>, \<open>SerialTransport\<close> and \<open>TcpTransport\<close> with their
  operations \<open>connect\<close>, \<open>disconnect\<close>, \<open>send\<close>/\<open>_send\<close>,
  \<open>recv\<close>/\<open>_recv\<close> and \<open>switch_baudrate\<close>.

  The outside world the transports talk to (the serial device or the TCP
  peer, and the wall clock) is the record \<open>world\<close>: a script \<open>rx\<close> of what
  successive low-level reads return (each after some delay, in clock ticks),
  the clock \<open>clock\<close> that \<open>time.time()\<close> reads, the log \<open>tx\<close> of everything
  written, and two flags saying whether opening/connecting and writing
  succeed. A read with the script exhausted is \<open>Stall\<close>: the model does not
  say what the device does next, and no theorem is about such a run.
  Every operation returns an \<open>outcome\<close>: a normal return with the new state,
  a raised exception with the state at the raise, or \<open>Stall\<close>.
\<close>

datatype error =
    TransportError string
  | TimeoutError string
  | SerialException
  | OSError
  | TypeError

datatype rx_event = RxData nat bytes | RxFail nat

record world =
  rx :: "rx_event list"
  clock :: nat
  tx :: "bytes list"
  link_ok :: bool
  tx_ok :: bool

datatype ('a, 's) outcome = Normal 'a 's | Exc error 's | Stall

text \<open>
  The handle a transport owns: an open \<open>serial.Serial\<close> port with its baud
  rate and read timeout, or a \<open>socket.socket\<close> that is connected or not.
  The transport kinds are the three classes; \<open>BaseTransport\<close> is a class of
  its own, usable but with every transport-dependent method unimplemented.
\<close>

datatype handle = SerialPort nat rat | Socket bool

datatype kind = Base | Serial string | Tcp "string \<times> nat"

record transport =
  kind :: kind
  timeout :: nat
  handle :: "handle option"

subsection \<open>The device side\<close>

text \<open>
  One low-level read (\<open>serial.Serial.read\<close>, \<open>socket.recv\<close>): consume the
  next scripted event, advance the clock by its delay, and return at most
  \<open>chars\<close> bytes, or raise the given error.
\<close>

definition port_read :: "nat \<Rightarrow> error \<Rightarrow> world \<Rightarrow> (bytes, world) outcome" where
  "port_read chars err w =
     (case rx w of
        [] \<Rightarrow> Stall
      | RxData d bs # rest \<Rightarrow> Normal (take chars bs) (w\<lparr>rx := rest, clock := clock w + d\<rparr>)
      | RxFail d # rest \<Rightarrow> Exc err (w\<lparr>rx := rest, clock := clock w + d\<rparr>))"

definition port_write :: "error \<Rightarrow> bytes \<Rightarrow> world \<Rightarrow> (unit, world) outcome" where
  "port_write err data w =
     (if tx_ok w then Normal () (w\<lparr>tx := tx w @ [data]\<rparr>) else Exc err w)"

text \<open>
  A device that sends the bytes \<open>bs\<close> one at a time, each arriving \<open>d\<close> ticks
  after the previous read call started: the script of a meter answering
  byte by byte.
\<close>

definition bytes_at :: "nat \<Rightarrow> bytes \<Rightarrow> rx_event list" where
  "bytes_at d bs = map (\<lambda>b. RxData d [b]) bs"

text \<open>How long a scripted read call blocks before it returns or raises.\<close>

definition rx_delay :: "rx_event \<Rightarrow> nat" where
  "rx_delay ev = (case ev of RxData d _ \<Rightarrow> d | RxFail d \<Rightarrow> d)"

subsection \<open>Construction\<close>

definition TRANSPORT_REQUIRES_ADDRESS :: "kind \<Rightarrow> bool" where
  "TRANSPORT_REQUIRES_ADDRESS k = (case k of Serial _ \<Rightarrow> False | _ \<Rightarrow> True)"

definition base_init :: "nat \<Rightarrow> transport" where
  "base_init tmo = \<lparr>kind = Base, timeout = tmo, handle = None\<rparr>"

definition serial_init :: "string \<Rightarrow> nat \<Rightarrow> transport" where
  "serial_init port tmo = \<lparr>kind = Serial port, timeout = tmo, handle = None\<rparr>"

definition get_socket :: "handle" where
  "get_socket = Socket False"

definition tcp_init :: "string \<times> nat \<Rightarrow> nat \<Rightarrow> transport" where
  "tcp_init address tmo = \<lparr>kind = Tcp address, timeout = tmo, handle = Some get_socket\<rparr>"

subsection \<open>SerialTransport\<close>

definition serial_open :: "nat \<Rightarrow> rat \<Rightarrow> world \<Rightarrow> (handle, world) outcome" where
  "serial_open baud tmo w =
     (if link_ok w then Normal (SerialPort baud tmo) w else Exc SerialException w)"

definition serial_connect :: "nat \<Rightarrow> transport \<times> world \<Rightarrow> (unit, transport \<times> world) outcome" where
  "serial_connect baudrate = (\<lambda>(t, w).
     (case serial_open baudrate (of_nat (timeout t) / 2) w of
        Normal p w' \<Rightarrow> Normal () (t\<lparr>handle := Some p\<rparr>, w')
      | Exc e w' \<Rightarrow> Exc e (t, w')
      | Stall \<Rightarrow> Stall))"

definition serial_closed :: error where
  "serial_closed = TransportError ''Serial port is closed.''"

definition serial_disconnect :: "transport \<times> world \<Rightarrow> (unit, transport \<times> world) outcome" where
  "serial_disconnect = (\<lambda>(t, w).
     (if handle t = None then Exc serial_closed (t, w)
      else Normal () (t\<lparr>handle := None\<rparr>, w)))"

definition serial__send :: "transport \<Rightarrow> bytes \<Rightarrow> world \<Rightarrow> (unit, world) outcome" where
  "serial__send t data w =
     (if handle t = None then Exc serial_closed w
      else port_write SerialException data w)"

definition serial__recv :: "transport \<Rightarrow> nat \<Rightarrow> world \<Rightarrow> (bytes, world) outcome" where
  "serial__recv t chars w =
     (if handle t = None then Exc serial_closed w
      else port_read chars SerialException w)"

definition serial_switch_baudrate ::
  "nat \<Rightarrow> transport \<times> world \<Rightarrow> (unit, transport \<times> world) outcome" where
  "serial_switch_baudrate baud = (\<lambda>(t, w).
     (if handle t = None then Exc serial_closed (t, w)
      else (case serial_open baud (of_nat (timeout t)) w of
              Normal p w' \<Rightarrow> Normal () (t\<lparr>handle := Some p\<rparr>, w')
            | Exc e w' \<Rightarrow> Exc e (t, w')
            | Stall \<Rightarrow> Stall)))"

subsection \<open>TcpTransport\<close>

text \<open>
  \<open>socket.connect\<close> on a socket that is already connected raises
  \<open>OSError\<close> (EISCONN), as does a connection the peer refuses; the socket
  created by \<open>connect\<close> itself stays in the transport either way.
\<close>

definition tcp_connect :: "transport \<times> world \<Rightarrow> (unit, transport \<times> world) outcome" where
  "tcp_connect = (\<lambda>(t, w).
     (let t' = (if handle t = None then t\<lparr>handle := Some get_socket\<rparr> else t)
      in if handle t' = Some (Socket False) \<and> link_ok w
         then Normal () (t'\<lparr>handle := Some (Socket True)\<rparr>, w)
         else Exc OSError (t', w)))"

definition socket_closed :: error where
  "socket_closed = TransportError ''Socket is closed''"

definition tcp_disconnect :: "transport \<times> world \<Rightarrow> (unit, transport \<times> world) outcome" where
  "tcp_disconnect = (\<lambda>(t, w).
     (if handle t = None then Exc socket_closed (t, w)
      else Normal () (t\<lparr>handle := None\<rparr>, w)))"

definition tcp__send :: "transport \<Rightarrow> bytes \<Rightarrow> world \<Rightarrow> (unit, world) outcome" where
  "tcp__send t data w =
     (if handle t = None then Exc socket_closed w
      else if handle t = Some (Socket True) then port_write OSError data w
      else Exc OSError w)"

text \<open>
  \<open>_recv\<close> wraps every exception of \<open>socket.recv\<close> (the socket errors and
  the socket's own timeout) into a \<open>TransportError\<close> without message; an
  unconnected socket raises such an error too.
\<close>

definition tcp__recv :: "transport \<Rightarrow> nat \<Rightarrow> world \<Rightarrow> (bytes, world) outcome" where
  "tcp__recv t chars w =
     (if handle t = None then Exc socket_closed w
      else if handle t = Some (Socket True) then port_read chars (TransportError '''') w
      else Exc (TransportError '''') w)"

definition tcp_switch_baudrate ::
  "nat \<Rightarrow> transport \<times> world \<Rightarrow> (unit, transport \<times> world) outcome" where
  "tcp_switch_baudrate baud s = Normal () s"

subsection \<open>Dispatch on the class: the methods of BaseTransport\<close>

text \<open>
  \<open>BaseTransport\<close>'s own \<open>connect\<close>, \<open>disconnect\<close>, \<open>_send\<close>, \<open>_recv\<close> and
  \<open>switch_baudrate\<close> execute \<open>raise NotImplemented("...")\<close>. The builtin
  \<open>NotImplemented\<close> is a constant, not an exception class: calling it raises
  \<open>TypeError\<close>, which is what these methods raise.
\<close>

definition not_implemented :: "'s \<Rightarrow> ('a, 's) outcome" where
  "not_implemented s = Exc TypeError s"

definition connect :: "transport \<times> world \<Rightarrow> (unit, transport \<times> world) outcome" where
  "connect s =
     (case kind (fst s) of
        Base \<Rightarrow> not_implemented s
      | Serial _ \<Rightarrow> serial_connect 300 s
      | Tcp _ \<Rightarrow> tcp_connect s)"

definition disconnect :: "transport \<times> world \<Rightarrow> (unit, transport \<times> world) outcome" where
  "disconnect s =
     (case kind (fst s) of
        Base \<Rightarrow> not_implemented s
      | Serial _ \<Rightarrow> serial_disconnect s
      | Tcp _ \<Rightarrow> tcp_disconnect s)"

definition send_raw :: "transport \<Rightarrow> bytes \<Rightarrow> world \<Rightarrow> (unit, world) outcome" where
  "send_raw t data w =
     (case kind t of
        Base \<Rightarrow> not_implemented w
      | Serial _ \<Rightarrow> serial__send t data w
      | Tcp _ \<Rightarrow> tcp__send t data w)"

definition send :: "transport \<Rightarrow> bytes \<Rightarrow> world \<Rightarrow> (unit, world) outcome" where
  "send t data w = send_raw t data w"

definition recv :: "transport \<Rightarrow> nat \<Rightarrow> world \<Rightarrow> (bytes, world) outcome" where
  "recv t chars w =
     (case kind t of
        Base \<Rightarrow> not_implemented w
      | Serial _ \<Rightarrow> serial__recv t chars w
      | Tcp _ \<Rightarrow> tcp__recv t chars w)"

definition switch_baudrate :: "nat \<Rightarrow> transport \<times> world \<Rightarrow> (unit, transport \<times> world) outcome" where
  "switch_baudrate baud s =
     (case kind (fst s) of
        Base \<Rightarrow> not_implemented s
      | Serial _ \<Rightarrow> serial_switch_baudrate baud s
      | Tcp _ \<Rightarrow> tcp_switch_baudrate baud s)"

subsection \<open>What the primitives do to the world\<close>

named_theorems transport_defs "the definitions a concrete transport call unfolds to"

declare recv_def [transport_defs] send_def [transport_defs] send_raw_def [transport_defs]
  serial__recv_def [transport_defs] serial__send_def [transport_defs]
  tcp__recv_def [transport_defs] tcp__send_def [transport_defs]
  port_read_def [transport_defs] port_write_def [transport_defs]
  not_implemented_def [transport_defs]

text \<open>
  A transport that can read: a serial transport with an open port, or a TCP
  transport with a connected socket. One that can write is the same.
\<close>

definition can_io :: "transport \<Rightarrow> bool" where
  "can_io t =
     (case kind t of
        Base \<Rightarrow> False
      | Serial _ \<Rightarrow> handle t \<noteq> None
      | Tcp _ \<Rightarrow> handle t = Some (Socket True))"

lemma recv_Normal_rx:
  "recv t n w = Normal b w' \<Longrightarrow>
   \<exists>d bs. rx w = RxData d bs # rx w' \<and> b = take n bs \<and> w' = w\<lparr>rx := rx w', clock := clock w + d\<rparr>"
  by (auto simp: transport_defs split: kind.splits if_splits list.splits rx_event.splits)

lemma recv_Normal_shorter:
  "recv t n w = Normal b w' \<Longrightarrow> length (rx w') < length (rx w)"
  by (auto dest!: recv_Normal_rx)

lemma send_Normal: "send t d w = Normal u w' \<Longrightarrow> w' = w\<lparr>tx := tx w @ [d]\<rparr>"
  by (auto simp: transport_defs split: kind.splits if_splits)

lemma send_not_Stall [simp]: "send t d w \<noteq> Stall"
  by (auto simp: transport_defs split: kind.splits if_splits)

lemma recv_can_io:
  "can_io t \<Longrightarrow> rx w = RxData d bs # rest \<Longrightarrow>
   recv t n w = Normal (take n bs) (w\<lparr>rx := rest, clock := clock w + d\<rparr>)"
  by (auto simp: can_io_def transport_defs split: kind.splits)

lemma send_can_io:
  "can_io t \<Longrightarrow> tx_ok w \<Longrightarrow> send t data w = Normal () (w\<lparr>tx := tx w @ [data]\<rparr>)"
  by (auto simp: can_io_def transport_defs split: kind.splits)

lemma recv_can_io_upd:
  "can_io t \<Longrightarrow>
   recv t n (w\<lparr>rx := RxData d bs # rest, clock := c\<rparr>) =
   Normal (take n bs) (w\<lparr>rx := rest, clock := c + d\<rparr>)"
  by (simp add: recv_can_io)

lemma bytes_at_simps [simp]:
  "bytes_at d [] = []"
  "bytes_at d (b # bs) = RxData d [b] # bytes_at d bs"
  "bytes_at d (bs @ cs) = bytes_at d bs @ bytes_at d cs"
  by (simp_all add: bytes_at_def)

end
