(* ===== verification/ReadBlock.thy ===== *)
theory ReadBlock
  imports Checksum Transport
begin

text \<open>
  The inner loop of the block framing engine \<open>BaseTransport.read\<close> of
  \<open>src/iec62056_21/transports.py\<close> (lines 32--131). Its inner loop (lines
  55--78, \<open>read_block\<close>) pulls one byte at a time through \<open>recv(1)\<close>,
  discards bytes until a start character, then collects every byte up to and
  including an end character, raising \<open>TimeoutError\<close> when the time since
  the block started exceeds \<open>self.timeout\<close>. Its outer loop (lines 50--129,
  \<open>read_loop\<close>) reads the BCC byte, returns a command message (SOH) as it
  is, answers a bad block with NACK and a good partial block (EOT) with ACK,
  strips per-block framing and finally recomputes the BCC of a message that
  came in several blocks.

  The local variables of the Python loops are the parameters of the two
  functions: \<open>start_time\<close>, \<open>start_char_received\<close>, \<open>start_char\<close> and
  \<open>in_data\<close> for the inner loop; \<open>total_data\<close>, \<open>packets\<close>,
  \<open>start_char_received\<close> and \<open>start_char\<close> for the outer one. As in the
  code, \<open>start_char_received\<close> and \<open>start_char\<close> are set once and never
  reset for the later blocks of the same call. Both loops consume one
  scripted read event per iteration, which is their termination measure.
\<close>

definition start_chars :: "bytes list" where
  "start_chars = [[SOH], [STX]]"

definition end_chars :: "bytes list" where
  "end_chars = [[ETX], [EOT]]"

definition class_name :: "kind \<Rightarrow> string" where
  "class_name k =
     (case k of Base \<Rightarrow> ''BaseTransport'' | Serial _ \<Rightarrow> ''SerialTransport''
      | Tcp _ \<Rightarrow> ''TcpTransport'')"

definition read_timeout_error :: "transport \<Rightarrow> error" where
  "read_timeout_error t = TimeoutError (''Read in '' @ class_name (kind t) @ '' timed out'')"

function read_block ::
  "transport \<Rightarrow> nat \<Rightarrow> bool \<Rightarrow> bytes option \<Rightarrow> bytes \<Rightarrow> world
   \<Rightarrow> (bool \<times> bytes option \<times> bytes \<times> bytes, world) outcome" where
  "read_block t start_time start_char_received start_char in_data w =
     (case recv t 1 w of
        Normal b w1 \<Rightarrow>
          (if clock w1 - start_time > timeout t then Exc (read_timeout_error t) w1
           else if \<not> start_char_received then
             (if b \<in> set start_chars
              then read_block t start_time True (Some b) (in_data @ b) w1
              else read_block t start_time start_char_received start_char in_data w1)
           else if b \<in> set end_chars
           then Normal (start_char_received, start_char, b, in_data @ b) w1
           else read_block t start_time start_char_received start_char (in_data @ b) w1)
      | Exc e w1 \<Rightarrow> Exc e w1
      | Stall \<Rightarrow> Stall)"
  by pat_completeness auto
termination
  by (relation "measure (\<lambda>(t, st, r, c, d, w). length (rx w))")
     (auto dest: recv_Normal_shorter)

declare read_block.simps [simp del]

lemma read_block_Normal_shorter:
  "read_block t st r c d w = Normal res w' \<Longrightarrow> length (rx w') < length (rx w)"
proof (induction t st r c d w rule: read_block.induct)
  case (1 t st r c d w)
  show ?case
  proof (cases "recv t 1 w")
    case (Normal b w1)
    have "length (rx w1) < length (rx w)"
      using Normal by (rule recv_Normal_shorter)
    with Normal "1.IH" "1.prems" show ?thesis
      by (auto simp: read_block.simps [of t st r c d w] split: if_splits)
  next
    case (Exc e w1)
    with "1.prems" show ?thesis by (simp add: read_block.simps [of t st r c d w])
  next
    case Stall
    with "1.prems" show ?thesis by (simp add: read_block.simps [of t st r c d w])
  qed
qed

lemma control_chars_simps [simp]:
  "[ETX] \<in> set end_chars" "[EOT] \<in> set end_chars" "[STX] \<notin> set end_chars"
  "[SOH] \<notin> set end_chars" "[STX] \<in> set start_chars" "[SOH] \<in> set start_chars"
  "[ETX] \<notin> set start_chars" "[EOT] \<notin> set start_chars"
  by (simp_all add: end_chars_def start_chars_def)

lemma read_block_collect:
  assumes io: "can_io t" and body: "\<forall>b\<in>set body. [b] \<notin> set end_chars"
    and e: "[e] \<in> set end_chars" and st: "st \<le> clock w"
    and time: "clock w + d * Suc (length body) \<le> st + timeout t"
    and rx: "rx w = bytes_at d (body @ [e]) @ rest"
  shows "read_block t st True sc acc w =
         Normal (True, sc, [e], acc @ body @ [e])
                (w\<lparr>rx := rest, clock := clock w + d * Suc (length body)\<rparr>)"
  using body st time rx
proof (induction body arbitrary: acc w)
  case Nil
  then show ?case
    using io e by (simp add: read_block.simps [of t st True sc acc w] recv_can_io)
next
  case (Cons b body)
  let ?w1 = "w\<lparr>rx := bytes_at d (body @ [e]) @ rest, clock := clock w + d\<rparr>"
  have nt: "\<not> timeout t < clock w + d - st"
    using Cons.prems by auto
  have step: "read_block t st True sc acc w = read_block t st True sc (acc @ [b]) ?w1"
    using Cons.prems io nt by (simp add: read_block.simps [of t st True sc acc w] recv_can_io)
  have "read_block t st True sc (acc @ [b]) ?w1 =
        Normal (True, sc, [e], (acc @ [b]) @ body @ [e])
               (?w1\<lparr>rx := rest, clock := clock ?w1 + d * Suc (length body)\<rparr>)"
    using Cons.prems by (intro Cons.IH) (auto simp: algebra_simps)
  with step show ?case by (simp add: algebra_simps)
qed

lemma read_block_skip:
  assumes io: "can_io t" and junk: "\<forall>b\<in>set junk. [b] \<notin> set start_chars"
    and s: "[s] \<in> set start_chars" and st: "st \<le> clock w"
    and time: "clock w + d * Suc (length junk) \<le> st + timeout t"
    and rx: "rx w = bytes_at d (junk @ s # tl_bytes) @ rest"
  shows "read_block t st False sc acc w =
         read_block t st True (Some [s]) (acc @ [s])
           (w\<lparr>rx := bytes_at d tl_bytes @ rest, clock := clock w + d * Suc (length junk)\<rparr>)"
  using junk st time rx
proof (induction junk arbitrary: w)
  case Nil
  then have "\<not> timeout t < clock w + d - st" by auto
  with Nil show ?case
    using io s by (simp add: read_block.simps [of t st False sc acc w] recv_can_io)
next
  case (Cons b junk)
  let ?w1 = "w\<lparr>rx := bytes_at d (junk @ s # tl_bytes) @ rest, clock := clock w + d\<rparr>"
  have nt: "\<not> timeout t < clock w + d - st"
    using Cons.prems by auto
  have step: "read_block t st False sc acc w = read_block t st False sc acc ?w1"
    using Cons.prems io nt by (simp add: read_block.simps [of t st False sc acc w] recv_can_io)
  have "read_block t st False sc acc ?w1 =
        read_block t st True (Some [s]) (acc @ [s])
          (?w1\<lparr>rx := bytes_at d tl_bytes @ rest, clock := clock ?w1 + d * Suc (length junk)\<rparr>)"
    using Cons.prems by (intro Cons.IH) (auto simp: algebra_simps)
  with step show ?case by (simp add: algebra_simps)
qed

lemma read_block_Normal_start:
  "read_block t st r sc acc w = Normal (r', sc', e, d) w' \<Longrightarrow>
   r' \<and> (\<exists>ds. d = acc @ ds) \<and> (r \<longrightarrow> sc' = sc) \<and>
   (\<not> r \<longrightarrow> (\<exists>s ds. sc' = Some s \<and> s \<in> set start_chars \<and> d = acc @ s @ ds))"
proof (induction t st r sc acc w rule: read_block.induct)
  case (1 t st r sc acc w)
  show ?case
  proof (cases "recv t 1 w")
    case (Normal b w1)
    show ?thesis
    proof (cases "timeout t < clock w1 - st")
      case True
      with Normal "1.prems" show ?thesis by (simp add: read_block.simps [of t st r sc acc w])
    next
      case nt: False
      show ?thesis
      proof (cases r)
        case True
        with Normal nt "1.IH"(3) "1.prems" show ?thesis
          by (auto simp: read_block.simps [of t st True sc acc w] split: if_splits)
      next
        case False
        show ?thesis
        proof (cases "b \<in> set start_chars")
          case True
          with False Normal nt "1.prems" have
            "read_block t st True (Some b) (acc @ b) w1 = Normal (r', sc', e, d) w'"
            by (simp add: read_block.simps [of t st False sc acc w])
          with True False Normal nt "1.IH"(1) obtain ds
            where "r'" "sc' = Some b" "d = (acc @ b) @ ds" by blast
          with True False show ?thesis by auto
        next
          case nb: False
          with False Normal nt "1.prems" have
            "read_block t st r sc acc w1 = Normal (r', sc', e, d) w'"
            by (simp add: read_block.simps [of t st False sc acc w])
          with nb False Normal nt "1.IH"(2) show ?thesis by blast
        qed
      qed
    qed
  next
    case (Exc e w1)
    with "1.prems" show ?thesis by (simp add: read_block.simps [of t st r sc acc w])
  next
    case Stall
    with "1.prems" show ?thesis by (simp add: read_block.simps [of t st r sc acc w])
  qed
qed

text \<open>
  Waiting for a start character that does not come: as long as the device
  sends no start character, the inner loop keeps reading until the time since
  \<open>start_time\<close> exceeds the timeout, then raises without writing anything.
\<close>

lemma read_block_times_out:
  assumes io: "can_io t"
    and evs: "\<forall>ev\<in>set evs. \<exists>d bs. ev = RxData d bs \<and> take 1 bs \<notin> set start_chars"
    and st: "st \<le> clock w" and before: "clock w \<le> st + timeout t"
    and late: "st + timeout t < clock w + sum_list (map rx_delay evs)"
    and rx: "rx w = evs @ rest"
  shows "\<exists>w'. read_block t st False sc acc w = Exc (read_timeout_error t) w' \<and> tx w' = tx w"
  using evs st before late rx
proof (induction evs arbitrary: w)
  case Nil
  then show ?case by simp
next
  case (Cons ev evs)
  then obtain d bs where ev: "ev = RxData d bs" and ns: "take 1 bs \<notin> set start_chars" by auto
  let ?w1 = "w\<lparr>rx := evs @ rest, clock := clock w + d\<rparr>"
  have rc: "recv t 1 w = Normal (take 1 bs) ?w1"
    using io Cons.prems(5) ev by (simp add: recv_can_io)
  show ?case
  proof (cases "timeout t < clock ?w1 - st")
    case True
    with rc show ?thesis by (simp add: read_block.simps [of t st False sc acc w])
  next
    case False
    with rc ns have "read_block t st False sc acc w = read_block t st False sc acc ?w1"
      by (simp add: read_block.simps [of t st False sc acc w])
    moreover have "\<exists>w'. read_block t st False sc acc ?w1 = Exc (read_timeout_error t) w' \<and> tx w' = tx ?w1"
      using Cons.prems False ev by (intro Cons.IH) (auto simp: rx_delay_def)
    ultimately show ?thesis by simp
  qed
qed

text \<open>
  A connection that delivers nothing more: once the start character is in,
  empty reads (the \<open>b''\<close> of a socket whose peer has closed) and other
  non-end bytes are collected until the deadline passes, and the block is
  abandoned with \<open>TimeoutError\<close>.
\<close>

lemma read_block_body:
  assumes io: "can_io t" and body: "\<forall>b\<in>set body. [b] \<notin> set end_chars" and st: "st \<le> clock w"
    and time: "clock w + d * length body \<le> st + timeout t"
    and rx: "rx w = bytes_at d body @ rest"
  shows "read_block t st True sc acc w =
         read_block t st True sc (acc @ body) (w\<lparr>rx := rest, clock := clock w + d * length body\<rparr>)"
  using body st time rx
proof (induction body arbitrary: acc w)
  case Nil
  then have "w\<lparr>rx := rest, clock := clock w + d * length []\<rparr> = w" by (cases w) simp
  then show ?case by simp
next
  case (Cons b body)
  let ?w1 = "w\<lparr>rx := bytes_at d body @ rest, clock := clock w + d\<rparr>"
  have nt: "\<not> timeout t < clock w + d - st"
    using Cons.prems by auto
  have step: "read_block t st True sc acc w = read_block t st True sc (acc @ [b]) ?w1"
    using Cons.prems io nt by (simp add: read_block.simps [of t st True sc acc w] recv_can_io)
  have "read_block t st True sc (acc @ [b]) ?w1 =
        read_block t st True sc ((acc @ [b]) @ body) (?w1\<lparr>rx := rest, clock := clock ?w1 + d * length body\<rparr>)"
    using Cons.prems by (intro Cons.IH) (auto simp: algebra_simps)
  with step show ?case by (simp add: algebra_simps)
qed

lemma read_block_times_out_started:
  assumes io: "can_io t"
    and evs: "\<forall>ev\<in>set evs. \<exists>d bs. ev = RxData d bs \<and> take 1 bs \<notin> set end_chars"
    and st: "st \<le> clock w" and before: "clock w \<le> st + timeout t"
    and late: "st + timeout t < clock w + sum_list (map rx_delay evs)"
    and rx: "rx w = evs @ rest"
  shows "\<exists>w'. read_block t st True sc acc w = Exc (read_timeout_error t) w' \<and> tx w' = tx w"
  using evs st before late rx
proof (induction evs arbitrary: acc w)
  case Nil
  then show ?case by simp
next
  case (Cons ev evs)
  then obtain d bs where ev: "ev = RxData d bs" and ne: "take 1 bs \<notin> set end_chars" by auto
  let ?w1 = "w\<lparr>rx := evs @ rest, clock := clock w + d\<rparr>"
  have rc: "recv t 1 w = Normal (take 1 bs) ?w1"
    using io Cons.prems(5) ev by (simp add: recv_can_io)
  show ?case
  proof (cases "timeout t < clock ?w1 - st")
    case True
    with rc show ?thesis by (simp add: read_block.simps [of t st True sc acc w])
  next
    case False
    with rc ne have "read_block t st True sc acc w = read_block t st True sc (acc @ take 1 bs) ?w1"
      by (simp add: read_block.simps [of t st True sc acc w])
    moreover have "\<exists>w'. read_block t st True sc (acc @ take 1 bs) ?w1 = Exc (read_timeout_error t) w' \<and> tx w' = tx ?w1"
      using Cons.prems False ev by (intro Cons.IH) (auto simp: rx_delay_def)
    ultimately show ?thesis by simp
  qed
qed

end
