(* ===== verification/Meter.thy ===== *)
theory Meter
  imports Checksum Transport
begin

text \<open>
  The other end of the link, as IEC 62056-21 and the spec (sections 3, 4.4
  and 8) describe it: a meter sends a message as one or more blocks
  \<open>STX payload EOT BCC\<close>, the last one ending in \<open>ETX\<close>, each block's BCC
  computed by the checksum unit over the block. \<open>logical_message\<close> is the
  message the framing engine promises to reassemble from those blocks: the
  first STX, every payload but the last followed by the line terminator, the
  last payload and ETX. A payload is well formed when it holds no end
  character. This theory is the abstract specification of the transfer; it
  models no code of the repository.
\<close>

definition meter_block :: "bytes \<Rightarrow> byte \<Rightarrow> bytes" where
  "meter_block p e = add_bcc (STX # p @ [e])"

fun meter_blocks :: "bytes list \<Rightarrow> bytes list" where
  "meter_blocks [] = []"
| "meter_blocks [p] = [meter_block p ETX]"
| "meter_blocks (p # ps) = meter_block p EOT # meter_blocks ps"

definition logical_message :: "bytes list \<Rightarrow> bytes" where
  "logical_message ps =
     STX # concat (map (\<lambda>p. p @ LINE_END_bytes) (butlast ps)) @ last ps @ [ETX]"

definition payload_ok :: "bytes \<Rightarrow> bool" where
  "payload_ok p = (\<forall>b\<in>set p. b \<noteq> ETX \<and> b \<noteq> EOT)"

lemma length_meter_block [simp]: "length (meter_block p e) = length p + 3"
  by (simp add: meter_block_def add_bcc_def)

lemma bytes_at_meter_block:
  "bytes_at d (meter_block p e) @ rest =
   bytes_at d ((STX # p) @ [e]) @ (RxData d [calculate_bcc (STX # p @ [e])] # rest)"
  by (simp add: meter_block_def add_bcc_def)

end
