(* ===== verification/BlockRead.thy ===== *)
theory BlockRead
  imports ReadBlock Meter
begin

text \<open>
  The outer loop of the block framing engine: \<open>BaseTransport.read\<close> of
  \<open>src/iec62056_21/transports.py\<close> (lines 32--131). After each block from
  \<open>read_block\<close> it reads the BCC byte, returns a command message (SOH) as
  it is, answers a bad block with NACK and a good partial block (EOT) with
  ACK, strips per-block framing and, when the message came in several
  blocks, recomputes its final BCC over the whole reassembled message.
\<close>

function read_loop ::
  "transport \<Rightarrow> bytes \<Rightarrow> nat \<Rightarrow> bool \<Rightarrow> bytes option \<Rightarrow> world \<Rightarrow> (bytes, world) outcome" where
  "read_loop t total_data packets start_char_received start_char w =
     (case read_block t (clock w) start_char_received start_char [] w of
        Normal (scr, sc, end_char, in_data) w1 \<Rightarrow>
          (let packets' = packets + 1 in
           case recv t 1 w1 of
             Normal bcc w2 \<Rightarrow>
               (let in_data' = in_data @ bcc in
                if sc = Some [SOH] then Normal (total_data @ in_data') w2
                else if end_char = [EOT] then
                  (if \<not> bcc_valid in_data' then
                     (case send t NACK_bytes w2 of
                        Normal _ w3 \<Rightarrow> read_loop t total_data packets' scr sc w3
                      | Exc e w3 \<Rightarrow> Exc e w3
                      | Stall \<Rightarrow> Stall)
                   else
                     (case send t ACK_bytes w2 of
                        Normal _ w3 \<Rightarrow>
                          (let d1 = py_drop_last2 in_data' @ LINE_END_bytes;
                               d2 = (if packets' > 1 then drop 1 d1 else d1)
                           in read_loop t (total_data @ d2) packets' scr sc w3)
                      | Exc e w3 \<Rightarrow> Exc e w3
                      | Stall \<Rightarrow> Stall))
                else if end_char = [ETX] then
                  (if \<not> bcc_valid in_data' then
                     (case send t NACK_bytes w2 of
                        Normal _ w3 \<Rightarrow> read_loop t total_data packets' scr sc w3
                      | Exc e w3 \<Rightarrow> Exc e w3
                      | Stall \<Rightarrow> Stall)
                   else
                     (let d1 = (if packets' > 1 then drop 1 in_data' else in_data');
                          tot = total_data @ d1
                      in Normal (if packets' > 1 then add_bcc (butlast tot) else tot) w2))
                else read_loop t total_data packets' scr sc w2)
           | Exc e w2 \<Rightarrow> Exc e w2
           | Stall \<Rightarrow> Stall)
      | Exc e w1 \<Rightarrow> Exc e w1
      | Stall \<Rightarrow> Stall)"
  by pat_completeness auto
termination
  by (relation "measure (\<lambda>(t, tot, p, r, c, w). length (rx w))")
     (auto dest!: read_block_Normal_shorter recv_Normal_shorter send_Normal)

declare read_loop.simps [simp del]

definition py_or :: "nat option \<Rightarrow> nat \<Rightarrow> nat" where
  "py_or x y = (case x of None \<Rightarrow> y | Some n \<Rightarrow> if n = 0 then y else n)"

definition read :: "transport \<Rightarrow> nat option \<Rightarrow> world \<Rightarrow> (bytes, world) outcome" where
  "read t tmo w =
     (let timeout_eff = py_or tmo (timeout t) in read_loop t [] 0 False None w)"

lemma end_chars_payload:
  "payload_ok p = (\<forall>b\<in>set p. [b] \<notin> set end_chars)"
  by (auto simp: payload_ok_def end_chars_def)

lemma read_loop_later:
  assumes io: "can_io t" and ok: "tx_ok w" and ne: "ps \<noteq> []"
    and pay: "\<forall>p\<in>set ps. payload_ok p"
    and time: "\<forall>p\<in>set ps. d * (length p + 2) \<le> timeout t"
    and rx: "rx w = bytes_at d (concat (meter_blocks ps)) @ rest"
    and pk: "1 \<le> packets"
  shows "read_loop t tot_data packets True (Some [STX]) w =
         Normal (add_bcc (tot_data @ concat (map (\<lambda>p. p @ LINE_END_bytes) (butlast ps)) @ last ps @ [ETX]))
           (w\<lparr>rx := rest, clock := clock w + d * length (concat (meter_blocks ps)),
              tx := tx w @ replicate (length ps - 1) ACK_bytes\<rparr>)"
  using ok ne pay time rx pk
proof (induction ps arbitrary: tot_data packets w rule: meter_blocks.induct)
  case 1
  then show ?case by simp
next
  case (2 p)
  let ?c = "calculate_bcc (STX # p @ [ETX])"
  let ?w1 = "w\<lparr>rx := RxData d [?c] # rest, clock := clock w + d * Suc (length (STX # p))\<rparr>"
  have blk: "read_block t (clock w) True (Some [STX]) [] w =
             Normal (True, Some [STX], [ETX], [] @ (STX # p) @ [ETX]) ?w1"
    using 2 io by (intro read_block_collect) (auto simp: end_chars_payload bytes_at_meter_block algebra_simps)
  have nv: "bcc_valid (STX # p @ [ETX, ?c])"
    using bcc_valid_snoc [of "STX # p @ [ETX]"] by simp
  show ?case
    using 2 io nv
    by (simp add: read_loop.simps [of t tot_data packets True "Some [STX]" w] blk recv_can_io_upd
        meter_block_def add_bcc_def algebra_simps Let_def butlast_append del: calculate_bcc_Cons calculate_bcc_append)
next
  case (3 p q ps)
  let ?c = "calculate_bcc (STX # p @ [EOT])"
  let ?w1 = "w\<lparr>rx := RxData d [?c] # bytes_at d (concat (meter_blocks (q # ps))) @ rest,
               clock := clock w + d * Suc (length (STX # p))\<rparr>"
  let ?w3 = "w\<lparr>rx := bytes_at d (concat (meter_blocks (q # ps))) @ rest,
               clock := clock w + d * Suc (length (STX # p)) + d, tx := tx w @ [ACK_bytes]\<rparr>"
  have blk: "read_block t (clock w) True (Some [STX]) [] w =
             Normal (True, Some [STX], [EOT], [] @ (STX # p) @ [EOT]) ?w1"
    using "3.prems" io by (intro read_block_collect) (auto simp: end_chars_payload bytes_at_meter_block algebra_simps)
  have rest: "read_loop t (tot_data @ p @ LINE_END_bytes) (Suc packets) True (Some [STX]) ?w3 =
         Normal (add_bcc ((tot_data @ p @ LINE_END_bytes) @ concat (map (\<lambda>p. p @ LINE_END_bytes) (butlast (q # ps))) @ last (q # ps) @ [ETX]))
           (?w3\<lparr>rx := rest, clock := clock ?w3 + d * length (concat (meter_blocks (q # ps))),
              tx := tx ?w3 @ replicate (length (q # ps) - 1) ACK_bytes\<rparr>)"
    using "3.prems" by (intro "3.IH") auto
  have nv: "bcc_valid (STX # p @ [EOT, ?c])"
    using bcc_valid_snoc [of "STX # p @ [EOT]"] by simp
  have "read_loop t tot_data packets True (Some [STX]) w =
        read_loop t (tot_data @ p @ LINE_END_bytes) (Suc packets) True (Some [STX]) ?w3"
    using "3.prems" io nv
    by (simp add: read_loop.simps [of t tot_data packets True "Some [STX]" w] blk recv_can_io_upd
        send_can_io slice_simps Let_def del: calculate_bcc_Cons calculate_bcc_append encode_ACK encode_LINE_END)
  also note rest
  finally show ?case
    by (simp add: algebra_simps replicate_append_same)
qed

lemma read_first_block:
  assumes io: "can_io t" and st: "\<forall>b\<in>set junk. [b] \<notin> set start_chars"
    and s: "[s] \<in> set start_chars"
    and pay: "payload_ok p" and e: "[e] \<in> set end_chars"
    and time: "d * (length junk + length p + 2) \<le> timeout t"
    and rx: "rx w = bytes_at d (junk @ s # p @ [e]) @ rest"
  shows "read_block t (clock w) False None [] w =
         Normal (True, Some [s], [e], s # p @ [e])
           (w\<lparr>rx := rest, clock := clock w + d * (length junk + length p + 2)\<rparr>)"
proof -
  let ?w1 = "w\<lparr>rx := bytes_at d (p @ [e]) @ rest, clock := clock w + d * Suc (length junk)\<rparr>"
  have "read_block t (clock w) False None [] w = read_block t (clock w) True (Some [s]) ([] @ [s]) ?w1"
    using io st s time rx by (intro read_block_skip) (auto simp: algebra_simps)
  also have "\<dots> = Normal (True, Some [s], [e], ([] @ [s]) @ p @ [e])
      (?w1\<lparr>rx := rest, clock := clock ?w1 + d * Suc (length p)\<rparr>)"
    using io pay e time by (intro read_block_collect) (auto simp: end_chars_payload algebra_simps)
  finally show ?thesis by (simp add: algebra_simps)
qed

lemma read_stream:
  assumes io: "can_io t" and ok: "tx_ok w" and ne: "ps \<noteq> []"
    and pay: "\<forall>p\<in>set ps. payload_ok p"
    and junk: "\<forall>b\<in>set junk. [b] \<notin> set start_chars"
    and time0: "d * (length junk + length (hd ps) + 2) \<le> timeout t"
    and time: "\<forall>p\<in>set ps. d * (length p + 2) \<le> timeout t"
    and rx: "rx w = bytes_at d (junk @ concat (meter_blocks ps)) @ rest"
  shows "read t tmo w =
         Normal (add_bcc (logical_message ps))
           (w\<lparr>rx := rest, clock := clock w + d * length (junk @ concat (meter_blocks ps)),
              tx := tx w @ replicate (length ps - 1) ACK_bytes\<rparr>)"
proof (cases ps rule: meter_blocks.cases)
  case 1
  with ne show ?thesis by simp
next
  case (2 p)
  let ?c = "calculate_bcc (STX # p @ [ETX])"
  have blk: "read_block t (clock w) False None [] w =
         Normal (True, Some [STX], [ETX], STX # p @ [ETX])
           (w\<lparr>rx := RxData d [?c] # rest, clock := clock w + d * (length junk + length p + 2)\<rparr>)"
    using 2 io junk pay time0 rx
    by (intro read_first_block [where rest = "RxData d [?c] # rest" and s = STX]) (auto simp: meter_block_def add_bcc_def)
  have nv: "bcc_valid (STX # p @ [ETX, ?c])"
    using bcc_valid_snoc [of "STX # p @ [ETX]"] by simp
  show ?thesis
    using 2 io nv
    by (simp add: read_def read_loop.simps [of t "[]" 0 False None w] blk recv_can_io_upd
        logical_message_def meter_block_def add_bcc_def algebra_simps Let_def
        del: calculate_bcc_Cons calculate_bcc_append)
next
  case (3 p q qs)
  let ?c = "calculate_bcc (STX # p @ [EOT])"
  let ?w3 = "w\<lparr>rx := bytes_at d (concat (meter_blocks (q # qs))) @ rest,
               clock := clock w + d * (length junk + length p + 2) + d, tx := tx w @ [ACK_bytes]\<rparr>"
  have blk: "read_block t (clock w) False None [] w =
         Normal (True, Some [STX], [EOT], STX # p @ [EOT])
           (w\<lparr>rx := RxData d [?c] # bytes_at d (concat (meter_blocks (q # qs))) @ rest,
              clock := clock w + d * (length junk + length p + 2)\<rparr>)"
    using 3 io junk pay time0 rx
    by (intro read_first_block [where rest = "RxData d [?c] # bytes_at d (concat (meter_blocks (q # qs))) @ rest" and s = STX]) (auto simp: meter_block_def add_bcc_def)
  have nv: "bcc_valid (STX # p @ [EOT, ?c])"
    using bcc_valid_snoc [of "STX # p @ [EOT]"] by simp
  have "read t tmo w = read_loop t (STX # p @ LINE_END_bytes) 1 True (Some [STX]) ?w3"
    using 3 io ok nv
    by (simp add: read_def read_loop.simps [of t "[]" 0 False None w] blk recv_can_io_upd
        send_can_io slice_simps Let_def del: calculate_bcc_Cons calculate_bcc_append encode_ACK encode_LINE_END)
  also have "\<dots> = Normal (add_bcc ((STX # p @ LINE_END_bytes) @
           concat (map (\<lambda>p. p @ LINE_END_bytes) (butlast (q # qs))) @ last (q # qs) @ [ETX]))
           (?w3\<lparr>rx := rest, clock := clock ?w3 + d * length (concat (meter_blocks (q # qs))),
              tx := tx ?w3 @ replicate (length (q # qs) - 1) ACK_bytes\<rparr>)"
    using 3 io ok pay time by (intro read_loop_later) auto
  finally show ?thesis
    using 3 by (simp add: logical_message_def algebra_simps replicate_append_same)
qed

lemma read_loop_Normal_cases:
  assumes "read_loop t tot packets scr sc w = Normal m w'"
  shows "\<exists>scr' sc' e d w1 bcc w2. read_block t (clock w) scr sc [] w = Normal (scr', sc', e, d) w1 \<and>
     recv t 1 w1 = Normal bcc w2 \<and>
     ((sc' = Some [SOH] \<and> m = tot @ d @ bcc \<and> w' = w2) \<or>
      (sc' \<noteq> Some [SOH] \<and> e = [ETX] \<and> bcc_valid (d @ bcc) \<and> w' = w2 \<and>
       m = (if 0 < packets then add_bcc (butlast (tot @ drop 1 (d @ bcc))) else tot @ d @ bcc)) \<or>
      (sc' \<noteq> Some [SOH] \<and> (\<exists>tot' w3. read_loop t tot' (Suc packets) scr' sc' w3 = Normal m w' \<and>
         (w3 = w2 \<or> w3 = w2\<lparr>tx := tx w2 @ [ACK_bytes]\<rparr> \<or> w3 = w2\<lparr>tx := tx w2 @ [NACK_bytes]\<rparr>))))"
proof -
  note unf = read_loop.simps [of t tot packets scr sc w]
  from assms obtain scr' sc' e d w1 where
    rb: "read_block t (clock w) scr sc [] w = Normal (scr', sc', e, d) w1"
    by (auto simp: unf split: outcome.splits)
  from assms rb obtain bcc w2 where rc: "recv t 1 w1 = Normal bcc w2"
    by (auto simp: unf split: outcome.splits)
  consider (soh) "sc' = Some [SOH]"
    | (bad) "sc' \<noteq> Some [SOH]" "e = [EOT] \<or> e = [ETX]" "\<not> bcc_valid (d @ bcc)"
    | (eot) "sc' \<noteq> Some [SOH]" "e = [EOT]" "bcc_valid (d @ bcc)"
    | (etx) "sc' \<noteq> Some [SOH]" "e = [ETX]" "bcc_valid (d @ bcc)"
    | (other) "sc' \<noteq> Some [SOH]" "e \<noteq> [EOT]" "e \<noteq> [ETX]"
    by blast
  then show ?thesis
  proof cases
    case soh
    with assms rb rc have "m = tot @ d @ bcc \<and> w' = w2" by (simp add: unf)
    with rb rc soh show ?thesis by blast
  next
    case bad
    with assms rb rc obtain w3 where "read_loop t tot (Suc packets) scr' sc' w3 = Normal m w'"
      and "w3 = w2\<lparr>tx := tx w2 @ [NACK_bytes]\<rparr>"
      by (auto simp: unf Let_def split: outcome.splits dest!: send_Normal)
    with rb rc bad show ?thesis by blast
  next
    case eot
    with assms rb rc obtain tot' w3 where "read_loop t tot' (Suc packets) scr' sc' w3 = Normal m w'"
      and "w3 = w2\<lparr>tx := tx w2 @ [ACK_bytes]\<rparr>"
      by (auto simp: unf Let_def split: outcome.splits dest!: send_Normal)
    with rb rc eot show ?thesis by blast
  next
    case etx
    with assms rb rc have "w' = w2 \<and>
       m = (if 0 < packets then add_bcc (butlast (tot @ drop 1 (d @ bcc))) else tot @ d @ bcc)"
      by (auto simp: unf Let_def)
    with rb rc etx show ?thesis by blast
  next
    case other
    with assms rb rc have "read_loop t tot (Suc packets) scr' sc' w2 = Normal m w'"
      by (simp add: unf Let_def)
    with rb rc other show ?thesis by blast
  qed
qed

lemma read_loop_verified:
  "read_loop t tot packets scr sc w = Normal m w' \<Longrightarrow>
   (packets = 0 \<longrightarrow> tot = [] \<and> \<not> scr) \<Longrightarrow> (0 < packets \<longrightarrow> scr \<and> sc \<noteq> Some [SOH]) \<Longrightarrow>
   take 1 m = [SOH] \<or> bcc_valid m"
proof (induction "length (rx w)" arbitrary: tot packets scr sc w rule: less_induct)
  case less
  from read_loop_Normal_cases [OF less.prems(1)] obtain scr' sc' e d w1 bcc w2 where
    rb: "read_block t (clock w) scr sc [] w = Normal (scr', sc', e, d) w1" and
    rc: "recv t 1 w1 = Normal bcc w2" and
    cases: "(sc' = Some [SOH] \<and> m = tot @ d @ bcc \<and> w' = w2) \<or>
      (sc' \<noteq> Some [SOH] \<and> e = [ETX] \<and> bcc_valid (d @ bcc) \<and> w' = w2 \<and>
       m = (if 0 < packets then add_bcc (butlast (tot @ drop 1 (d @ bcc))) else tot @ d @ bcc)) \<or>
      (sc' \<noteq> Some [SOH] \<and> (\<exists>tot' w3. read_loop t tot' (Suc packets) scr' sc' w3 = Normal m w' \<and>
         (w3 = w2 \<or> w3 = w2\<lparr>tx := tx w2 @ [ACK_bytes]\<rparr> \<or> w3 = w2\<lparr>tx := tx w2 @ [NACK_bytes]\<rparr>)))"
    by blast
  have st: "scr' \<and> (scr \<longrightarrow> sc' = sc) \<and>
     (\<not> scr \<longrightarrow> (\<exists>s ds. sc' = Some s \<and> s \<in> set start_chars \<and> d = [] @ s @ ds))"
    using read_block_Normal_start [OF rb] by blast
  have shorter: "length (rx w2) < length (rx w)"
    using read_block_Normal_shorter [OF rb] recv_Normal_shorter [OF rc] by simp
  from cases consider (soh) "sc' = Some [SOH]" "m = tot @ d @ bcc"
    | (etx) "bcc_valid (d @ bcc)"
        "m = (if 0 < packets then add_bcc (butlast (tot @ drop 1 (d @ bcc))) else tot @ d @ bcc)"
    | (again) tot' w3 where "sc' \<noteq> Some [SOH]" "read_loop t tot' (Suc packets) scr' sc' w3 = Normal m w'"
        "w3 = w2 \<or> w3 = w2\<lparr>tx := tx w2 @ [ACK_bytes]\<rparr> \<or> w3 = w2\<lparr>tx := tx w2 @ [NACK_bytes]\<rparr>"
    by blast
  then show ?case
  proof cases
    case soh
    with st less.prems(3) have "packets = 0" by auto
    with st soh less.prems(2) show ?thesis by auto
  next
    case etx
    with less.prems(2) show ?thesis by (auto simp: add_bcc_roundtrip)
  next
    case (again tot' w3)
    from again(3) shorter have "length (rx w3) < length (rx w)" by auto
    then show ?thesis
      using again(1,2) st by (intro less.hyps) auto
  qed
qed

lemma payload_ok_update:
  "payload_ok p \<Longrightarrow> [x] \<notin> set end_chars \<Longrightarrow> payload_ok (p[j := x])"
  by (auto simp: end_chars_payload dest: set_update_subset_insert [THEN subsetD])

lemma corrupted_frame:
  assumes pay: "payload_ok p" and e: "[e] \<in> set end_chars" and i0: "0 < i"
    and pos: "i \<le> length p \<and> [x] \<notin> set end_chars \<or> i = length p + 2"
    and x: "x \<noteq> meter_block p e ! i"
  obtains p' c' where "(meter_block p e)[i := x] = STX # p' @ [e, c']" and "payload_ok p'"
    and "length p' = length p" and "\<not> bcc_valid (STX # p' @ [e, c'])"
proof -
  have valid: "bcc_valid (meter_block p e)"
    by (simp add: meter_block_def add_bcc_roundtrip)
  have len: "i < length (meter_block p e)" using pos by auto
  have bad: "\<not> bcc_valid ((meter_block p e)[i := x])"
    using bcc_detects_single_corruption [OF valid len x] .
  have mb: "meter_block p e = STX # p @ [e, calculate_bcc (STX # p @ [e])]"
    by (simp add: meter_block_def add_bcc_def)
  from pos show ?thesis
  proof
    assume a: "i \<le> length p \<and> [x] \<notin> set end_chars"
    then obtain j where j: "i = Suc j" "j < length p" using i0 by (cases i) auto
    have "(meter_block p e)[i := x] = STX # p[j := x] @ [e, calculate_bcc (STX # p @ [e])]"
      using j by (simp add: mb list_update_append)
    with that bad pay a show ?thesis by (simp add: payload_ok_update)
  next
    assume a: "i = length p + 2"
    have "(meter_block p e)[i := x] = STX # p @ [e, x]"
      using a by (simp add: mb list_update_append)
    with that bad pay show ?thesis by simp
  qed
qed

lemma read_nack_first:
  assumes io: "can_io t" and ok: "tx_ok w" and pay: "payload_ok p" and e: "[e] \<in> set end_chars"
    and junk: "\<forall>b\<in>set junk. [b] \<notin> set start_chars"
    and time: "d * (length junk + length p + 2) \<le> timeout t"
    and bad: "\<not> bcc_valid (STX # p @ [e, c])"
    and rx: "rx w = bytes_at d (junk @ STX # p @ [e, c]) @ rest"
  shows "read t tmo w = read_loop t [] 1 True (Some [STX])
           (w\<lparr>rx := rest, clock := clock w + d * (length junk + length p + 3), tx := tx w @ [NACK_bytes]\<rparr>)"
proof -
  have blk: "read_block t (clock w) False None [] w =
         Normal (True, Some [STX], [e], STX # p @ [e])
           (w\<lparr>rx := RxData d [c] # rest, clock := clock w + d * (length junk + length p + 2)\<rparr>)"
    using rx by (intro read_first_block [OF io junk _ pay e time]) simp_all
  have "e = EOT \<or> e = ETX" using e by (auto simp: end_chars_def)
  then show ?thesis
    using io ok bad
    by (auto simp: read_def read_loop.simps [of t "[]" 0 False None w] blk recv_can_io_upd
        send_can_io Let_def algebra_simps eval_nat_numeral simp del: encode_NACK)
qed

text \<open>
  C1: reassembly of a multi-block message. A meter sends the payloads
  \<open>ps\<close> as blocks (\<open>STX p EOT BCC\<close> for all but the last, \<open>STX p ETX
  BCC\<close> for the last), byte by byte, after any bytes that are not start
  characters; every block arrives within the timeout and no payload holds an
  end character. Then \<open>read\<close> acknowledges every partial block with one ACK,
  and returns the logical message (the first STX, each payload but the last
  followed by CR LF, the last payload, ETX) with a BCC over it, having
  consumed exactly the message's bytes. For one block (\<open>ps = [p]\<close>) this
  is the block exactly as the meter sent it, STX, ETX and BCC included, and
  nothing is written: the code does not strip the framing that spec
  section 8 says a single-block read removes.
\<close>

theorem read_reassembles_blocks:
  assumes "can_io t" and "tx_ok w" and "ps \<noteq> []"
    and "\<forall>p\<in>set ps. payload_ok p"
    and "\<forall>b\<in>set junk. [b] \<notin> set start_chars"
    and "d * (length junk + length (hd ps) + 2) \<le> timeout t"
    and "\<forall>p\<in>set ps. d * (length p + 2) \<le> timeout t"
    and "rx w = bytes_at d (junk @ concat (meter_blocks ps)) @ rest"
  shows "read t tmo w =
         Normal (add_bcc (logical_message ps))
           (w\<lparr>rx := rest, clock := clock w + d * length (junk @ concat (meter_blocks ps)),
              tx := tx w @ replicate (length ps - 1) ACK_bytes\<rparr>)"
  using assms by (rule read_stream)

theorem read_reassembles_blocks_witness:
  "read \<lparr>kind = Tcp (''meter'', 8000), timeout = 30, handle = Some (Socket True)\<rparr> None
     \<lparr>rx = bytes_at 1 ([0x30] @ concat (meter_blocks [[0x41], [0x42]])), clock = 0, tx = [],
      link_ok = True, tx_ok = True\<rparr> =
   Normal [STX, 0x41, 0x0D, 0x0A, 0x42, ETX, 0x05]
     \<lparr>rx = [], clock = 9, tx = [ACK_bytes], link_ok = True, tx_ok = True\<rparr>"
  using read_reassembles_blocks
    [where t = "\<lparr>kind = Tcp (''meter'', 8000), timeout = 30, handle = Some (Socket True)\<rparr>"
       and w = "\<lparr>rx = bytes_at 1 ([0x30] @ concat (meter_blocks [[0x41], [0x42]])), clock = 0,
                 tx = [], link_ok = True, tx_ok = True\<rparr>"
       and ps = "[[0x41], [0x42]]" and junk = "[0x30]" and d = 1 and rest = "[]" and tmo = None]
  by (simp add: can_io_def payload_ok_def start_chars_def control_defs logical_message_def
      add_bcc_def meter_block_def)

text \<open>
  C2: the promise of \<open>read\<close> (spec section 3): every message it returns
  either is a command message that starts with SOH, returned as it came, or
  ends in a BCC that \<open>bcc_valid\<close> accepts over the whole returned buffer. It
  holds for every device script, whatever was retried or acknowledged.
\<close>

theorem read_result_verified:
  assumes "read t tmo w = Normal m w'"
  shows "take 1 m = [SOH] \<or> bcc_valid m"
  using assms unfolding read_def Let_def by (rule read_loop_verified) simp_all

theorem read_result_verified_witness:
  "read \<lparr>kind = Tcp (''meter'', 8000), timeout = 30, handle = Some (Socket True)\<rparr> None
     \<lparr>rx = bytes_at 0 [0x7F, SOH, 0x50, 0x30, STX, 0x28, 0x29, ETX, 0x99, 0x33], clock = 5,
      tx = [], link_ok = True, tx_ok = True\<rparr> =
   Normal [SOH, 0x50, 0x30, STX, 0x28, 0x29, ETX, 0x99]
     \<lparr>rx = [RxData 0 [0x33]], clock = 5, tx = [], link_ok = True, tx_ok = True\<rparr> \<and>
   (take 1 [SOH, 0x50, 0x30, STX, 0x28, 0x29, ETX, 0x99] = [SOH] \<or>
    bcc_valid [SOH, 0x50, 0x30, STX, 0x28, 0x29, ETX, 0x99])"
proof -
  have r: "read \<lparr>kind = Tcp (''meter'', 8000), timeout = 30, handle = Some (Socket True)\<rparr> None
     \<lparr>rx = bytes_at 0 [0x7F, SOH, 0x50, 0x30, STX, 0x28, 0x29, ETX, 0x99, 0x33], clock = 5,
      tx = [], link_ok = True, tx_ok = True\<rparr> =
   Normal [SOH, 0x50, 0x30, STX, 0x28, 0x29, ETX, 0x99]
     \<lparr>rx = [RxData 0 [0x33]], clock = 5, tx = [], link_ok = True, tx_ok = True\<rparr>"
    by (simp add: read_def read_loop.simps read_block.simps transport_defs
        start_chars_def end_chars_def control_defs)
  show ?thesis using r read_result_verified [OF r] by blast
qed

text \<open>
  C3: a corrupted block is refused (spec section 4.4 step 4). If one byte of
  a meter's block is corrupted in transit (a payload byte replaced by a byte
  that is not an end character, or the BCC byte replaced by any other value),
  \<open>read\<close> consumes the block, sends exactly one NACK and goes on reading
  the same logical message: it continues as the outer loop with no data
  accumulated, one block counted and the start character recorded.
\<close>

theorem read_nacks_corrupted_block:
  assumes "can_io t" and "tx_ok w" and "payload_ok p" and "[e] \<in> set end_chars"
    and "\<forall>b\<in>set junk. [b] \<notin> set start_chars"
    and "d * (length junk + length p + 2) \<le> timeout t"
    and "0 < i" and "i \<le> length p \<and> [x] \<notin> set end_chars \<or> i = length p + 2"
    and "x \<noteq> meter_block p e ! i"
    and "rx w = bytes_at d (junk @ (meter_block p e)[i := x]) @ rest"
  shows "read t tmo w = read_loop t [] 1 True (Some [STX])
           (w\<lparr>rx := rest, clock := clock w + d * (length junk + length p + 3),
              tx := tx w @ [NACK_bytes]\<rparr>)"
proof -
  obtain p' c' where f: "(meter_block p e)[i := x] = STX # p' @ [e, c']" and "payload_ok p'"
    and len: "length p' = length p" and "\<not> bcc_valid (STX # p' @ [e, c'])"
    by (rule corrupted_frame [OF assms(3,4,7,8,9)])
  then have "read t tmo w = read_loop t [] 1 True (Some [STX])
           (w\<lparr>rx := rest, clock := clock w + d * (length junk + length p' + 3),
              tx := tx w @ [NACK_bytes]\<rparr>)"
    using assms(1,2,4,5,6,10) by (intro read_nack_first) simp_all
  with len show ?thesis by simp
qed

theorem read_nacks_corrupted_block_witness:
  "read \<lparr>kind = Tcp (''meter'', 8000), timeout = 30, handle = Some (Socket True)\<rparr> None
     \<lparr>rx = bytes_at 1 ((meter_block [0x41, 0x42] ETX)[2 := 0x43] @ meter_block [0x41, 0x42] ETX),
      clock = 0, tx = [], link_ok = True, tx_ok = True\<rparr> =
   read_loop \<lparr>kind = Tcp (''meter'', 8000), timeout = 30, handle = Some (Socket True)\<rparr> [] 1 True
     (Some [STX])
     \<lparr>rx = bytes_at 1 (meter_block [0x41, 0x42] ETX), clock = 5, tx = [NACK_bytes],
      link_ok = True, tx_ok = True\<rparr>"
  using read_nacks_corrupted_block
    [where t = "\<lparr>kind = Tcp (''meter'', 8000), timeout = 30, handle = Some (Socket True)\<rparr>"
       and w = "\<lparr>rx = bytes_at 1 ((meter_block [0x41, 0x42] ETX)[2 := 0x43] @ meter_block [0x41, 0x42] ETX),
                 clock = 0, tx = [], link_ok = True, tx_ok = True\<rparr>"
       and p = "[0x41, 0x42]" and e = ETX and junk = "[]" and d = 1 and i = 2 and x = "0x43"
       and rest = "bytes_at 1 (meter_block [0x41, 0x42] ETX)" and tmo = None]
  by (simp add: can_io_def payload_ok_def end_chars_def control_defs meter_block_def add_bcc_def)

text \<open>
  C4: command messages pass through unchecked (spec section 4.4 step 3). A
  message whose first start character is SOH (a password challenge, say) is
  returned exactly as received up to its end character and the byte after
  it, whatever that byte is: no BCC check, no ACK or NACK, no further
  block is read.
\<close>

theorem read_soh_verbatim:
  assumes "can_io t" and "\<forall>b\<in>set junk. [b] \<notin> set start_chars"
    and "payload_ok body" and "[e] \<in> set end_chars"
    and "d * (length junk + length body + 2) \<le> timeout t"
    and "rx w = bytes_at d (junk @ SOH # body @ [e, c]) @ rest"
  shows "read t tmo w =
         Normal (SOH # body @ [e, c])
           (w\<lparr>rx := rest, clock := clock w + d * (length junk + length body + 3)\<rparr>)"
proof -
  have blk: "read_block t (clock w) False None [] w =
         Normal (True, Some [SOH], [e], SOH # body @ [e])
           (w\<lparr>rx := RxData d [c] # rest, clock := clock w + d * (length junk + length body + 2)\<rparr>)"
    using assms by (intro read_first_block [where rest = "RxData d [c] # rest"]) simp_all
  show ?thesis
    using assms(1)
    by (simp add: read_def read_loop.simps [of t "[]" 0 False None w] blk recv_can_io_upd
        Let_def algebra_simps eval_nat_numeral)
qed

theorem read_soh_verbatim_witness:
  "read \<lparr>kind = Serial ''COM1'', timeout = 10, handle = Some (SerialPort 300 5)\<rparr> None
     \<lparr>rx = bytes_at 1 [SOH, 0x50, 0x30, STX, 0x28, 0x29, ETX, 0x00], clock = 0, tx = [],
      link_ok = True, tx_ok = True\<rparr> =
   Normal [SOH, 0x50, 0x30, STX, 0x28, 0x29, ETX, 0x00]
     \<lparr>rx = [], clock = 8, tx = [], link_ok = True, tx_ok = True\<rparr>"
  using read_soh_verbatim
    [where t = "\<lparr>kind = Serial ''COM1'', timeout = 10, handle = Some (SerialPort 300 5)\<rparr>"
       and w = "\<lparr>rx = bytes_at 1 [SOH, 0x50, 0x30, STX, 0x28, 0x29, ETX, 0x00], clock = 0, tx = [],
                 link_ok = True, tx_ok = True\<rparr>"
       and junk = "[]" and body = "[0x50, 0x30, STX, 0x28, 0x29]" and e = ETX and c = 0
       and d = 1 and rest = "[]" and tmo = None]
  by (simp add: can_io_def payload_ok_def end_chars_def control_defs)

text \<open>
  C5: a retransmitted single block loses its STX. When the first block of a
  single-block message fails its BCC check, \<open>read\<close> sends one NACK; the
  meter sends the block again, correctly. Because the block counter
  \<open>packets\<close> already counted the refused block, the retransmission is
  treated as a later block: its STX is dropped and the BCC recomputed over
  what is left. The returned message is therefore one byte shorter than the
  block a clean transfer returns.
\<close>

theorem read_nack_then_resend:
  assumes "can_io t" and "tx_ok w" and "payload_ok p"
    and "\<forall>b\<in>set junk. [b] \<notin> set start_chars"
    and "d * (length junk + length p + 2) \<le> timeout t"
    and "c \<noteq> calculate_bcc (STX # p @ [ETX])"
    and "rx w = bytes_at d (junk @ STX # p @ [ETX, c] @ meter_block p ETX) @ rest"
  shows "read t tmo w =
         Normal (add_bcc (p @ [ETX]))
           (w\<lparr>rx := rest, clock := clock w + d * (length junk + 2 * length p + 6),
              tx := tx w @ [NACK_bytes]\<rparr>) \<and>
         add_bcc (p @ [ETX]) \<noteq> meter_block p ETX"
proof -
  let ?w3 = "w\<lparr>rx := bytes_at d (meter_block p ETX) @ rest,
               clock := clock w + d * (length junk + length p + 3), tx := tx w @ [NACK_bytes]\<rparr>"
  have tp: "d * (length p + 2) \<le> timeout t"
    using assms(5) by (rule order_trans [rotated]) simp
  have "read t tmo w = read_loop t [] 1 True (Some [STX]) ?w3"
    using assms by (intro read_nack_first) (simp_all add: bcc_valid_snoc [of "STX # p @ [ETX]", simplified])
  also have "\<dots> = Normal (add_bcc ([] @ concat (map (\<lambda>p. p @ LINE_END_bytes) (butlast [p])) @ last [p] @ [ETX]))
      (?w3\<lparr>rx := rest, clock := clock ?w3 + d * length (concat (meter_blocks [p])),
         tx := tx ?w3 @ replicate (length [p] - 1) ACK_bytes\<rparr>)"
    using assms(1,2,3) tp by (intro read_loop_later) auto
  finally have "read t tmo w = Normal (add_bcc (p @ [ETX]))
           (w\<lparr>rx := rest, clock := clock w + d * (length junk + 2 * length p + 6),
              tx := tx w @ [NACK_bytes]\<rparr>)"
    by (simp add: algebra_simps)
  moreover have "length (add_bcc (p @ [ETX])) \<noteq> length (meter_block p ETX)"
    by (simp add: add_bcc_def)
  ultimately show ?thesis by auto
qed

theorem read_nack_then_resend_witness:
  "read \<lparr>kind = Tcp (''meter'', 8000), timeout = 30, handle = Some (Socket True)\<rparr> None
     \<lparr>rx = bytes_at 1 [STX, 0x41, ETX, 0x00, STX, 0x41, ETX, 0x40], clock = 0, tx = [],
      link_ok = True, tx_ok = True\<rparr> =
   Normal [0x41, ETX, 0x42]
     \<lparr>rx = [], clock = 8, tx = [NACK_bytes], link_ok = True, tx_ok = True\<rparr> \<and>
   add_bcc ([0x41] @ [ETX]) \<noteq> meter_block [0x41] ETX"
  using read_nack_then_resend
    [where t = "\<lparr>kind = Tcp (''meter'', 8000), timeout = 30, handle = Some (Socket True)\<rparr>"
       and w = "\<lparr>rx = bytes_at 1 [STX, 0x41, ETX, 0x00, STX, 0x41, ETX, 0x40], clock = 0, tx = [],
                 link_ok = True, tx_ok = True\<rparr>"
       and p = "[0x41]" and junk = "[]" and c = 0 and d = 1 and rest = "[]" and tmo = None]
  by (simp add: can_io_def payload_ok_def control_defs meter_block_def add_bcc_def)

text \<open>
  C6: a byte between two blocks is not discarded. The inner loop's
  \<open>start_char_received\<close> is set by the first block and never reset (lines
  45, 61--67), so after an ACKed partial block the next call of the inner
  loop collects every byte, not only those from the next start byte on.
  A stray byte \<open>j\<close> (neither zero nor an end character) before the final
  block's STX becomes part of that block, whose BCC no longer matches: the
  meter gets a NACK for a block it sent correctly, and the message is
  complete only after the retransmission.
\<close>

theorem read_byte_between_blocks_nacked:
  assumes io: "can_io t" and ok: "tx_ok w"
    and junk: "\<forall>b\<in>set junk. [b] \<notin> set start_chars"
    and pp: "payload_ok p" and pq: "payload_ok q"
    and j: "[j] \<notin> set end_chars" and j0: "j \<noteq> 0"
    and time1: "d * (length junk + length p + 2) \<le> timeout t"
    and time2: "d * (length q + 3) \<le> timeout t"
    and rx: "rx w = bytes_at d (junk @ meter_block p EOT @ j # meter_block q ETX @ meter_block q ETX) @ rest"
  shows "read t tmo w =
         Normal (add_bcc (logical_message [p, q]))
           (w\<lparr>rx := rest, clock := clock w + d * (length junk + length p + 2 * length q + 10),
              tx := tx w @ [ACK_bytes, NACK_bytes]\<rparr>)"
proof -
  let ?cp = "calculate_bcc (STX # p @ [EOT])"
  let ?cq = "calculate_bcc (STX # q @ [ETX])"
  let ?rest1 = "bytes_at d (j # meter_block q ETX @ meter_block q ETX) @ rest"
  let ?rest2 = "bytes_at d (meter_block q ETX) @ rest"
  let ?tot = "STX # p @ LINE_END_bytes"
  let ?w1 = "w\<lparr>rx := RxData d [?cp] # ?rest1, clock := clock w + d * (length junk + length p + 2)\<rparr>"
  define w3 where "w3 = w\<lparr>rx := ?rest1, clock := clock w + d * (length junk + length p + 2) + d, tx := tx w @ [ACK_bytes]\<rparr>"
  let ?w4 = "w3\<lparr>rx := RxData d [?cq] # ?rest2, clock := clock w3 + d * Suc (length (j # STX # q))\<rparr>"
  let ?w5 = "w3\<lparr>rx := ?rest2, clock := clock w3 + d * Suc (length (j # STX # q)) + d, tx := tx w3 @ [NACK_bytes]\<rparr>"
  have rx1: "rx w = bytes_at d (junk @ STX # p @ [EOT]) @ RxData d [?cp] # ?rest1"
    using rx by (simp add: meter_block_def add_bcc_def del: calculate_bcc_Cons calculate_bcc_append)
  have blk1: "read_block t (clock w) False None [] w = Normal (True, Some [STX], [EOT], STX # p @ [EOT]) ?w1"
    using io junk pp time1 rx1 by (intro read_first_block) simp_all
  have v1: "bcc_valid (STX # p @ [EOT, ?cp])"
    using bcc_valid_snoc [of "STX # p @ [EOT]"] by simp
  have step1: "read t tmo w = read_loop t ?tot 1 True (Some [STX]) w3"
    unfolding w3_def using io ok v1
    by (simp add: read_def read_loop.simps [of t "[]" 0 False None w] blk1 recv_can_io_upd send_can_io
        slice_simps Let_def del: calculate_bcc_Cons calculate_bcc_append encode_ACK encode_LINE_END)
  have rx3: "rx w3 = bytes_at d ((j # STX # q) @ [ETX]) @ RxData d [?cq] # ?rest2"
    by (simp add: w3_def meter_block_def add_bcc_def del: calculate_bcc_Cons calculate_bcc_append)
  have body: "\<forall>b\<in>set (j # STX # q). [b] \<notin> set end_chars"
    using j pq by (simp add: end_chars_payload)
  have blk2: "read_block t (clock w3) True (Some [STX]) [] w3 =
              Normal (True, Some [STX], [ETX], [] @ (j # STX # q) @ [ETX]) ?w4"
    using time2 by (intro read_block_collect [OF io body _ _ _ rx3]) (simp_all add: algebra_simps)
  have iff: "bcc_valid (j # STX # q @ [ETX, ?cq]) = (?cq = calculate_bcc (j # STX # q @ [ETX]))"
    using bcc_valid_snoc [of "j # STX # q @ [ETX]" ?cq] by simp
  have cj: "calculate_bcc (j # STX # q @ [ETX]) = j XOR ?cq"
    by (simp add: xor.assoc)
  have ne: "?cq \<noteq> j XOR ?cq"
    using j0 by (metis xor_stays_iff xor.commute)
  have bad: "\<not> bcc_valid (j # STX # q @ [ETX, ?cq])"
    unfolding iff cj by (rule ne)
  have ok3: "tx_ok w3" using ok by (simp add: w3_def)
  have step2: "read_loop t ?tot 1 True (Some [STX]) w3 = read_loop t ?tot 2 True (Some [STX]) ?w5"
    using io ok3 bad
    by (simp add: read_loop.simps [of t ?tot "Suc 0" True "Some [STX]" w3] blk2 recv_can_io_upd send_can_io
        Let_def numeral_2_eq_2 del: calculate_bcc_Cons calculate_bcc_append encode_NACK encode_LINE_END)
  have step3: "read_loop t ?tot 2 True (Some [STX]) ?w5 =
         Normal (add_bcc (?tot @ concat (map (\<lambda>p. p @ LINE_END_bytes) (butlast [q])) @ last [q] @ [ETX]))
           (?w5\<lparr>rx := rest, clock := clock ?w5 + d * length (concat (meter_blocks [q])),
              tx := tx ?w5 @ replicate (length [q] - 1) ACK_bytes\<rparr>)"
    using ok3 pq time2 by (intro read_loop_later [OF io]) (simp_all add: algebra_simps)
  show ?thesis
    unfolding step1 step2 step3
    by (simp add: w3_def logical_message_def algebra_simps del: encode_ACK encode_NACK encode_LINE_END)
qed

theorem read_byte_between_blocks_nacked_witness:
  "read \<lparr>kind = Tcp (''meter'', 8000), timeout = 30, handle = Some (Socket True)\<rparr> None
     \<lparr>rx = bytes_at 1 (meter_block [0x41] EOT @ 0x30 # meter_block [0x42] ETX @ meter_block [0x42] ETX),
      clock = 0, tx = [], link_ok = True, tx_ok = True\<rparr> =
   Normal [STX, 0x41, 0x0D, 0x0A, 0x42, ETX, 0x05]
     \<lparr>rx = [], clock = 13, tx = [ACK_bytes, NACK_bytes], link_ok = True, tx_ok = True\<rparr>"
  using read_byte_between_blocks_nacked
    [where t = "\<lparr>kind = Tcp (''meter'', 8000), timeout = 30, handle = Some (Socket True)\<rparr>"
       and w = "\<lparr>rx = bytes_at 1 (meter_block [0x41] EOT @ 0x30 # meter_block [0x42] ETX @ meter_block [0x42] ETX),
                 clock = 0, tx = [], link_ok = True, tx_ok = True\<rparr>"
       and junk = "[]" and p = "[0x41]" and q = "[0x42]" and j = "0x30" and d = 1 and rest = "[]" and tmo = None]
  by (simp add: can_io_def payload_ok_def start_chars_def end_chars_def control_defs logical_message_def
      meter_block_def add_bcc_def del: bytes_at_simps)

text \<open>
  C7: the timeout when no message starts (spec section 8). If every byte the
  device delivers, or every empty read, is no start character, and these
  reads together take longer than the transport's timeout, \<open>read\<close> raises
  \<open>TimeoutError\<close> and has sent nothing to the meter.
\<close>

theorem read_timeout_no_start:
  assumes "can_io t"
    and "\<forall>ev\<in>set evs. \<exists>d bs. ev = RxData d bs \<and> take 1 bs \<notin> set start_chars"
    and "timeout t < sum_list (map rx_delay evs)"
    and "rx w = evs @ rest"
  shows "\<exists>w'. read t tmo w = Exc (read_timeout_error t) w' \<and> tx w' = tx w"
proof -
  obtain w' where "read_block t (clock w) False None [] w = Exc (read_timeout_error t) w'"
    and "tx w' = tx w"
    using read_block_times_out [OF assms(1,2) order_refl le_add1 _ assms(4), where sc = None and acc = "[]"]
      assms(3) by auto
  then show ?thesis
    by (simp add: read_def read_loop.simps [of t "[]" 0 False None w])
qed

theorem read_timeout_no_start_witness:
  "read \<lparr>kind = Serial ''COM1'', timeout = 10, handle = Some (SerialPort 300 5)\<rparr> None
     \<lparr>rx = [RxData 5 [], RxData 5 [0x30], RxData 5 [], RxData 5 [STX]], clock = 0, tx = [],
      link_ok = True, tx_ok = True\<rparr> =
   Exc (TimeoutError ''Read in SerialTransport timed out'')
     \<lparr>rx = [RxData 5 [STX]], clock = 15, tx = [], link_ok = True, tx_ok = True\<rparr>"
proof -
  obtain w' where r: "read \<lparr>kind = Serial ''COM1'', timeout = 10, handle = Some (SerialPort 300 5)\<rparr> None
     \<lparr>rx = [RxData 5 [], RxData 5 [0x30], RxData 5 [], RxData 5 [STX]], clock = 0, tx = [],
      link_ok = True, tx_ok = True\<rparr> =
     Exc (read_timeout_error \<lparr>kind = Serial ''COM1'', timeout = 10, handle = Some (SerialPort 300 5)\<rparr>) w'"
    using read_timeout_no_start
      [where t = "\<lparr>kind = Serial ''COM1'', timeout = 10, handle = Some (SerialPort 300 5)\<rparr>"
         and evs = "[RxData 5 [], RxData 5 [0x30], RxData 5 []]" and rest = "[RxData 5 [STX]]"
         and w = "\<lparr>rx = [RxData 5 [], RxData 5 [0x30], RxData 5 [], RxData 5 [STX]], clock = 0, tx = [],
                   link_ok = True, tx_ok = True\<rparr>" and tmo = None]
    by (auto simp: can_io_def start_chars_def control_defs rx_delay_def)
  have "read \<lparr>kind = Serial ''COM1'', timeout = 10, handle = Some (SerialPort 300 5)\<rparr> None
     \<lparr>rx = [RxData 5 [], RxData 5 [0x30], RxData 5 [], RxData 5 [STX]], clock = 0, tx = [],
      link_ok = True, tx_ok = True\<rparr> =
   Exc (TimeoutError ''Read in SerialTransport timed out'')
     \<lparr>rx = [RxData 5 [STX]], clock = 15, tx = [], link_ok = True, tx_ok = True\<rparr>"
    by (simp add: read_def read_loop.simps read_block.simps transport_defs start_chars_def
        control_defs read_timeout_error_def class_name_def)
  with r show ?thesis by simp
qed

text \<open>
  C8: the per-call timeout is ignored. \<open>read(timeout=...)\<close> computes
  \<open>timeout = timeout or self.timeout\<close> (line 48) but the loop compares the
  elapsed time with \<open>self.timeout\<close> (line 59): whatever timeout a caller
  passes, \<open>read\<close> behaves exactly as without it.
\<close>

theorem read_timeout_override_ignored: "read t (Some n) w = read t None w"
  by (simp add: read_def)

text \<open>
  C9: the BCC byte is read without a deadline. The elapsed time is checked
  only in the inner loop (line 59), after each byte up to the end character;
  the BCC byte that follows (line 82) is read with no check. A single block
  whose bytes up to ETX arrive in time is accepted however late its BCC byte
  arrives, so a call of \<open>read\<close> can run past its timeout and still succeed.
\<close>

theorem read_bcc_byte_untimed:
  assumes "can_io t" and "payload_ok p" and "\<forall>b\<in>set junk. [b] \<notin> set start_chars"
    and "d * (length junk + length p + 2) \<le> timeout t"
    and "rx w = bytes_at d (junk @ STX # p @ [ETX]) @ RxData late [calculate_bcc (STX # p @ [ETX])] # rest"
  shows "read t tmo w =
         Normal (meter_block p ETX)
           (w\<lparr>rx := rest, clock := clock w + d * (length junk + length p + 2) + late\<rparr>)"
proof -
  have blk: "read_block t (clock w) False None [] w =
         Normal (True, Some [STX], [ETX], STX # p @ [ETX])
           (w\<lparr>rx := RxData late [calculate_bcc (STX # p @ [ETX])] # rest,
              clock := clock w + d * (length junk + length p + 2)\<rparr>)"
    using assms by (intro read_first_block) simp_all
  have nv: "bcc_valid (STX # p @ [ETX, calculate_bcc (STX # p @ [ETX])])"
    using bcc_valid_snoc [of "STX # p @ [ETX]"] by simp
  show ?thesis
    using assms(1) nv
    by (simp add: read_def read_loop.simps [of t "[]" 0 False None w] blk recv_can_io_upd
        meter_block_def add_bcc_def Let_def del: calculate_bcc_Cons calculate_bcc_append)
qed

theorem read_bcc_byte_untimed_witness:
  "read \<lparr>kind = Serial ''COM1'', timeout = 10, handle = Some (SerialPort 300 5)\<rparr> (Some 1000)
     \<lparr>rx = bytes_at 1 [STX, 0x41, ETX] @ [RxData 500 [0x40]], clock = 0, tx = [],
      link_ok = True, tx_ok = True\<rparr> =
   Normal [STX, 0x41, ETX, 0x40]
     \<lparr>rx = [], clock = 503, tx = [], link_ok = True, tx_ok = True\<rparr>"
  using read_bcc_byte_untimed
    [where t = "\<lparr>kind = Serial ''COM1'', timeout = 10, handle = Some (SerialPort 300 5)\<rparr>"
       and w = "\<lparr>rx = bytes_at 1 [STX, 0x41, ETX] @ [RxData 500 [0x40]], clock = 0, tx = [],
                 link_ok = True, tx_ok = True\<rparr>"
       and p = "[0x41]" and junk = "[]" and d = 1 and late = 500 and rest = "[]" and tmo = "Some 1000"]
  by (simp add: can_io_def payload_ok_def control_defs meter_block_def add_bcc_def)

end
