(* ===== verification/SimpleRead.thy ===== *)
theory SimpleRead
  imports BlockRead
begin

text \<open>
  The delimiter reader \<open>BaseTransport.simple_read\<close> of
  \<open>src/iec62056_21/transports.py\<close> (lines 133--173, spec section 4.3): one
  byte at a time through \<open>recv(1)\<close>, discard everything before the start
  character, then collect every byte up to and including the end character.
  There is no checksum and nothing is sent. The deadline is checked exactly
  as in \<open>read\<close>: after each \<open>recv\<close>, against \<open>self.timeout\<close>, measured
  from the start of the call.

  The delimiters are passed as \<open>str\<close> or \<open>bytes\<close> and go through
  \<open>utils.ensure_bytes\<close> (not under \<open>src/\<close>; modelled from the spec: a string
  is encoded, bytes are kept). The loop compares the whole one-byte result of
  \<open>recv(1)\<close> with the delimiter, so a delimiter of any length other than one
  byte is never matched on a device that answers byte by byte.
\<close>

definition ensure_bytes :: "string + bytes \<Rightarrow> bytes" where
  "ensure_bytes x = (case x of Inl s \<Rightarrow> encode s | Inr b \<Rightarrow> b)"

function simple_read_loop ::
  "transport \<Rightarrow> bytes \<Rightarrow> bytes \<Rightarrow> nat \<Rightarrow> bool \<Rightarrow> bytes \<Rightarrow> world \<Rightarrow> (bytes, world) outcome" where
  "simple_read_loop t start_char end_char start_time start_char_received in_data w =
     (case recv t 1 w of
        Normal b w1 \<Rightarrow>
          (if clock w1 - start_time > timeout t then Exc (read_timeout_error t) w1
           else if \<not> start_char_received then
             (if b = start_char
              then simple_read_loop t start_char end_char start_time True (in_data @ b) w1
              else simple_read_loop t start_char end_char start_time start_char_received in_data w1)
           else if b = end_char then Normal (in_data @ b) w1
           else simple_read_loop t start_char end_char start_time start_char_received (in_data @ b) w1)
      | Exc e w1 \<Rightarrow> Exc e w1
      | Stall \<Rightarrow> Stall)"
  by pat_completeness auto
termination
  by (relation "measure (\<lambda>(t, s, e, st, r, d, w). length (rx w))")
     (auto dest: recv_Normal_shorter)

declare simple_read_loop.simps [simp del]

definition simple_read ::
  "transport \<Rightarrow> string + bytes \<Rightarrow> string + bytes \<Rightarrow> nat option \<Rightarrow> world \<Rightarrow> (bytes, world) outcome" where
  "simple_read t start_char end_char tmo w =
     (let start_char' = ensure_bytes start_char;
          end_char' = ensure_bytes end_char;
          timeout_eff = py_or tmo (timeout t)
      in simple_read_loop t start_char' end_char' (clock w) False [] w)"

subsection \<open>The loop on a device that answers byte by byte\<close>

lemma simple_read_collect:
  assumes io: "can_io t" and body: "e \<notin> set body" and st: "st \<le> clock w"
    and time: "clock w + d * Suc (length body) \<le> st + timeout t"
    and rx: "rx w = bytes_at d (body @ [e]) @ rest"
  shows "simple_read_loop t s [e] st True acc w =
         Normal (acc @ body @ [e]) (w\<lparr>rx := rest, clock := clock w + d * Suc (length body)\<rparr>)"
  using body st time rx
proof (induction body arbitrary: acc w)
  case Nil
  then have "\<not> timeout t < clock w + d - st" by auto
  with Nil show ?case
    using io by (simp add: simple_read_loop.simps [of t s "[e]" st True acc w] recv_can_io)
next
  case (Cons b body)
  let ?w1 = "w\<lparr>rx := bytes_at d (body @ [e]) @ rest, clock := clock w + d\<rparr>"
  have nt: "\<not> timeout t < clock w + d - st"
    using Cons.prems by auto
  have step: "simple_read_loop t s [e] st True acc w = simple_read_loop t s [e] st True (acc @ [b]) ?w1"
    using Cons.prems io nt by (auto simp add: simple_read_loop.simps [of t s "[e]" st True acc w] recv_can_io)
  have "simple_read_loop t s [e] st True (acc @ [b]) ?w1 =
        Normal ((acc @ [b]) @ body @ [e])
               (?w1\<lparr>rx := rest, clock := clock ?w1 + d * Suc (length body)\<rparr>)"
    using Cons.prems by (intro Cons.IH) (auto simp: algebra_simps)
  with step show ?case by (simp add: algebra_simps)
qed

lemma simple_read_skip:
  assumes io: "can_io t" and junk: "s \<notin> set junk" and st: "st \<le> clock w"
    and time: "clock w + d * Suc (length junk) \<le> st + timeout t"
    and rx: "rx w = bytes_at d (junk @ s # tl_bytes) @ rest"
  shows "simple_read_loop t [s] e st False acc w =
         simple_read_loop t [s] e st True (acc @ [s])
           (w\<lparr>rx := bytes_at d tl_bytes @ rest, clock := clock w + d * Suc (length junk)\<rparr>)"
  using junk st time rx
proof (induction junk arbitrary: w)
  case Nil
  then have "\<not> timeout t < clock w + d - st" by auto
  with Nil show ?case
    using io by (simp add: simple_read_loop.simps [of t "[s]" e st False acc w] recv_can_io)
next
  case (Cons b junk)
  let ?w1 = "w\<lparr>rx := bytes_at d (junk @ s # tl_bytes) @ rest, clock := clock w + d\<rparr>"
  have nt: "\<not> timeout t < clock w + d - st"
    using Cons.prems by auto
  have step: "simple_read_loop t [s] e st False acc w = simple_read_loop t [s] e st False acc ?w1"
    using Cons.prems io nt by (auto simp add: simple_read_loop.simps [of t "[s]" e st False acc w] recv_can_io)
  have "simple_read_loop t [s] e st False acc ?w1 =
        simple_read_loop t [s] e st True (acc @ [s])
          (?w1\<lparr>rx := bytes_at d tl_bytes @ rest, clock := clock ?w1 + d * Suc (length junk)\<rparr>)"
    using Cons.prems by (intro Cons.IH) (auto simp: algebra_simps)
  with step show ?case by (simp add: algebra_simps)
qed

text \<open>
  The whole exchange on a byte-by-byte device: junk without the start byte,
  the start byte, a body without the end byte, the end byte. The loop
  returns the frame from the start byte to the end byte and leaves the rest
  of the script unread.
\<close>

lemma simple_read_loop_frame:
  assumes io: "can_io t" and junk: "s \<notin> set junk" and body: "e \<notin> set body"
    and time: "d * (length junk + length body + 2) \<le> timeout t"
    and rx: "rx w = bytes_at d (junk @ s # body @ [e]) @ rest"
  shows "simple_read_loop t [s] [e] (clock w) False [] w =
         Normal (s # body @ [e]) (w\<lparr>rx := rest, clock := clock w + d * (length junk + length body + 2)\<rparr>)"
proof -
  let ?w1 = "w\<lparr>rx := bytes_at d (body @ [e]) @ rest, clock := clock w + d * Suc (length junk)\<rparr>"
  have "simple_read_loop t [s] [e] (clock w) False [] w = simple_read_loop t [s] [e] (clock w) True [s] ?w1"
    using simple_read_skip [OF io junk, of "clock w" w d "body @ [e]" rest "[e]" "[]"] time rx
    by (simp add: algebra_simps)
  also have "\<dots> = Normal ([s] @ body @ [e]) (?w1\<lparr>rx := rest, clock := clock ?w1 + d * Suc (length body)\<rparr>)"
    using time by (intro simple_read_collect [OF io body]) (simp_all add: algebra_simps)
  finally show ?thesis by (simp add: algebra_simps)
qed

text \<open>
  A start delimiter that is not one byte long is never matched: \<open>recv(1)\<close>
  returns at most one byte, so the loop stays in its first state and can
  only end by raising.
\<close>

lemma recv_one_short: "recv t 1 w = Normal b w1 \<Longrightarrow> length b \<le> 1"
  by (auto dest!: recv_Normal_rx)

lemma simple_read_loop_never_starts:
  "2 \<le> length s \<Longrightarrow> \<not> r \<Longrightarrow> simple_read_loop t s e st r acc w \<noteq> Normal m w'"
proof (induction t s e st r acc w rule: simple_read_loop.induct)
  case (1 t s e st r acc w)
  show ?case
  proof (cases "recv t 1 w")
    case (Normal b w1)
    have "length b \<le> 1" using Normal by (rule recv_one_short)
    then have "b \<noteq> s" using "1.prems" by auto
    with Normal "1.IH"(2) "1.prems" show ?thesis
      by (simp add: simple_read_loop.simps [of t s e st _ acc w])
  qed (simp_all add: simple_read_loop.simps [of t s e st _ acc w])
qed

text \<open>
  C10: the delimiter reader returns the delimited frame (spec section 4.3).
  For one-byte delimiters, given as \<open>str\<close> or as \<open>bytes\<close>, on a device that
  sends junk without the start byte, the start byte, a body without the end
  byte (it may contain the start byte) and the end byte, each byte within
  the timeout, \<open>simple_read\<close> returns the frame from the start byte through
  the end byte, drops the junk, and reads nothing after the end byte. The
  witness is the example of spec section 8: \<open>simple_read('/', '!')\<close> on
  \<open>junk/hello!more\<close> returns \<open>/hello!\<close> and leaves \<open>more\<close> unread.
\<close>

theorem simple_read_frame:
  assumes io: "can_io t" and sc: "ensure_bytes start_char = [s]" and ec: "ensure_bytes end_char = [e]"
    and junk: "s \<notin> set junk" and body: "e \<notin> set body"
    and time: "d * (length junk + length body + 2) \<le> timeout t"
    and rx: "rx w = bytes_at d (junk @ s # body @ [e]) @ rest"
  shows "simple_read t start_char end_char tmo w =
         Normal (s # body @ [e]) (w\<lparr>rx := rest, clock := clock w + d * (length junk + length body + 2)\<rparr>)"
  using simple_read_loop_frame [OF io junk body time rx] by (simp add: simple_read_def sc ec)

theorem simple_read_frame_witness:
  "simple_read \<lparr>kind = Tcp (''meter'', 8000), timeout = 30, handle = Some (Socket True)\<rparr>
     (Inl ''/'') (Inl ''!'') None
     \<lparr>rx = bytes_at 2 (encode ''junk/hello!more''), clock = 0, tx = [], link_ok = True, tx_ok = True\<rparr> =
   Normal (encode ''/hello!'')
     \<lparr>rx = bytes_at 2 (encode ''more''), clock = 22, tx = [], link_ok = True, tx_ok = True\<rparr>"
  using simple_read_frame
    [where t = "\<lparr>kind = Tcp (''meter'', 8000), timeout = 30, handle = Some (Socket True)\<rparr>"
       and w = "\<lparr>rx = bytes_at 2 (encode ''junk/hello!more''), clock = 0, tx = [],
                 link_ok = True, tx_ok = True\<rparr>"
       and start_char = "Inl ''/''" and end_char = "Inl ''!''" and s = "0x2F" and e = "0x21"
       and junk = "encode ''junk''" and body = "encode ''hello''" and d = 2
       and rest = "bytes_at 2 (encode ''more'')" and tmo = None]
  by (simp add: can_io_def ensure_bytes_def encode_def)

text \<open>
  C11: a start delimiter longer than one byte is never matched. The loop
  compares the one-byte result of \<open>recv(1)\<close> with the whole delimiter, so
  \<open>simple_read\<close> with such a delimiter never returns a message, whatever
  the device sends.
\<close>

theorem simple_read_long_start_never_matches:
  assumes "2 \<le> length (ensure_bytes start_char)"
  shows "simple_read t start_char end_char tmo w \<noteq> Normal m w'"
  by (simp add: simple_read_def simple_read_loop_never_starts [OF assms])

theorem simple_read_long_start_never_matches_witness:
  "simple_read \<lparr>kind = Tcp (''meter'', 8000), timeout = 30, handle = Some (Socket True)\<rparr>
     (Inl ''/?'') (Inl ''!'') None
     \<lparr>rx = bytes_at 1 (encode ''/?hello!''), clock = 0, tx = [], link_ok = True, tx_ok = True\<rparr>
   \<noteq> Normal (encode ''/?hello!'') \<lparr>rx = [], clock = 8, tx = [], link_ok = True, tx_ok = True\<rparr>"
  using simple_read_long_start_never_matches
    [where t = "\<lparr>kind = Tcp (''meter'', 8000), timeout = 30, handle = Some (Socket True)\<rparr>"
       and start_char = "Inl ''/?''"]
  by (simp add: ensure_bytes_def encode_def)

end
