(* ===== verification/Session.thy ===== *)
theory Session
  imports SimpleRead
begin

text \<open>
  A transport object as its callers use it (spec section 6, exposed
  operations): the operations \<open>connect\<close>, \<open>disconnect\<close>, \<open>send\<close>,
  \<open>recv\<close>, \<open>switch_baudrate\<close>, \<open>read\<close> and \<open>simple_read\<close> of
  \<open>src/iec62056_21/transports.py\<close>, applied one after another to one object.
  \<open>exec_op\<close> runs one operation on the pair of the transport and the world;
  \<open>run_ops\<close> runs a list of operations and stops at the first exception,
  as a caller without a handler does. After an exception the object stays
  as it was at the raise, as in Python.

  The lemmas: the failure contract of spec sections 4.2 and 7 (closed
  resources, the class-specific errors, the TCP no-op), the serial port's
  parameters after a baud switch, how \<open>read\<close> ends when the device fails or
  the peer closes. The whole TCP session is in the root theory.
\<close>

datatype op =
    Connect
  | Disconnect
  | Send bytes
  | Recv nat
  | SwitchBaudrate nat
  | Read "nat option"
  | SimpleRead "string + bytes" "string + bytes" "nat option"

datatype ret = RetUnit | RetBytes bytes

type_synonym state = "transport \<times> world"

definition on_world ::
  "(world \<Rightarrow> ('a, world) outcome) \<Rightarrow> ('a \<Rightarrow> ret) \<Rightarrow> state \<Rightarrow> (ret, state) outcome" where
  "on_world f r = (\<lambda>(t, w).
     (case f w of Normal a w' \<Rightarrow> Normal (r a) (t, w') | Exc e w' \<Rightarrow> Exc e (t, w') | Stall \<Rightarrow> Stall))"

definition unit_ret :: "(unit, state) outcome \<Rightarrow> (ret, state) outcome" where
  "unit_ret r = (case r of Normal _ s \<Rightarrow> Normal RetUnit s | Exc e s \<Rightarrow> Exc e s | Stall \<Rightarrow> Stall)"

fun exec_op :: "op \<Rightarrow> state \<Rightarrow> (ret, state) outcome" where
  "exec_op Connect s = unit_ret (connect s)"
| "exec_op Disconnect s = unit_ret (disconnect s)"
| "exec_op (Send data) (t, w) = on_world (send t data) (\<lambda>_. RetUnit) (t, w)"
| "exec_op (Recv n) (t, w) = on_world (recv t n) RetBytes (t, w)"
| "exec_op (SwitchBaudrate b) s = unit_ret (switch_baudrate b s)"
| "exec_op (Read tmo) (t, w) = on_world (read t tmo) RetBytes (t, w)"
| "exec_op (SimpleRead sc ec tmo) (t, w) = on_world (simple_read t sc ec tmo) RetBytes (t, w)"

fun run_ops :: "op list \<Rightarrow> state \<Rightarrow> (ret list, state) outcome" where
  "run_ops [] s = Normal [] s"
| "run_ops (cmd # cmds) s =
     (case exec_op cmd s of
        Normal r s' \<Rightarrow> (case run_ops cmds s' of Normal rs s'' \<Rightarrow> Normal (r # rs) s'' | Exc e s'' \<Rightarrow> Exc e s''
                        | Stall \<Rightarrow> Stall)
      | Exc e s' \<Rightarrow> Exc e s'
      | Stall \<Rightarrow> Stall)"

text \<open>The error a closed resource raises, by class.\<close>

definition closed_error :: "kind \<Rightarrow> error" where
  "closed_error k = (case k of Serial _ \<Rightarrow> serial_closed | _ \<Rightarrow> socket_closed)"

text \<open>
  The operations the spec says fail on a closed resource (section 4.2,
  failure semantics): all but \<open>connect\<close>, and \<open>switch_baudrate\<close> only on
  a serial transport.
\<close>

definition fails_when_closed :: "kind \<Rightarrow> op \<Rightarrow> bool" where
  "fails_when_closed k cmd =
     (case cmd of
        Connect \<Rightarrow> False
      | SwitchBaudrate _ \<Rightarrow> (case k of Serial _ \<Rightarrow> True | _ \<Rightarrow> False)
      | _ \<Rightarrow> k \<noteq> Base)"

lemma read_recv_Exc:
  "recv t 1 w = Exc e w' \<Longrightarrow> read t tmo w = Exc e w'"
  by (simp add: read_def read_loop.simps [of t "[]" 0 False None w] read_block.simps [of t "clock w" False None "[]" w])

lemma simple_read_recv_Exc:
  "recv t 1 w = Exc e w' \<Longrightarrow> simple_read t sc ec tmo w = Exc e w'"
  by (simp add: simple_read_def simple_read_loop.simps [of t _ _ "clock w" False "[]" w])

lemma recv_closed:
  "handle t = None \<Longrightarrow> kind t \<noteq> Base \<Longrightarrow> recv t n w = Exc (closed_error (kind t)) w"
  by (auto simp: closed_error_def transport_defs split: kind.splits)

lemma send_closed:
  "handle t = None \<Longrightarrow> kind t \<noteq> Base \<Longrightarrow> send t data w = Exc (closed_error (kind t)) w"
  by (auto simp: closed_error_def transport_defs split: kind.splits)

text \<open>
  C12: operations on a closed resource fail fast (spec sections 4.2 and 7).
  When a serial or TCP transport holds no handle, \<open>disconnect\<close>, \<open>send\<close>,
  \<open>recv\<close>, \<open>read\<close>, \<open>simple_read\<close> and the serial
  \<open>switch_baudrate\<close> raise \<open>TransportError\<close> with the class's
  "closed" message at once, touching neither the transport nor the device.
\<close>

theorem closed_resource_fails:
  "handle t = None \<Longrightarrow> fails_when_closed (kind t) cmd \<Longrightarrow>
   exec_op cmd (t, w) = Exc (closed_error (kind t)) (t, w)"
  by (cases cmd)
     (auto simp: fails_when_closed_def on_world_def unit_ret_def recv_closed send_closed
        read_recv_Exc simple_read_recv_Exc disconnect_def switch_baudrate_def closed_error_def
        serial_disconnect_def tcp_disconnect_def serial_switch_baudrate_def split: kind.splits)

text \<open>
  C13: \<open>switch_baudrate\<close> on a TCP transport is a no-op
  (spec section 8): it returns, and changes neither the transport nor the
  device, nothing sent and nothing received.
\<close>

theorem tcp_switch_baudrate_noop:
  "kind t = Tcp address \<Longrightarrow> exec_op (SwitchBaudrate b) (t, w) = Normal RetUnit (t, w)"
  by (simp add: unit_ret_def switch_baudrate_def tcp_switch_baudrate_def)

text \<open>
  C14: every operation of a bare \<open>BaseTransport\<close> raises
  \<open>TypeError\<close>, and leaves the transport and the device as they were. The
  transport-dependent methods execute \<open>raise NotImplemented(...)\<close>;
  \<open>NotImplemented\<close> is not callable, so the raise is a \<open>TypeError\<close> and
  not the intended \<open>NotImplementedError\<close>; \<open>read\<close> and \<open>simple_read\<close>
  fail the same way through their first \<open>recv\<close>.
\<close>

theorem base_transport_raises_TypeError:
  "kind t = Base \<Longrightarrow> exec_op cmd (t, w) = Exc TypeError (t, w)"
  by (cases cmd)
     (simp_all add: on_world_def unit_ret_def connect_def disconnect_def switch_baudrate_def transport_defs
        read_recv_Exc simple_read_recv_Exc)

text \<open>
  C15: switching the baud rate of a serial transport does not keep
  the port's other parameters. After \<open>connect()\<close> (300 baud, read timeout
  half the transport's timeout) and \<open>switch_baudrate(b)\<close>, the transport
  holds a port at baud \<open>b\<close> whose read timeout is the whole timeout.
\<close>

theorem serial_switch_full_timeout:
  "kind t = Serial port \<Longrightarrow> link_ok w \<Longrightarrow>
   run_ops [Connect, SwitchBaudrate b] (t, w) =
   Normal [RetUnit, RetUnit] (t\<lparr>handle := Some (SerialPort b (of_nat (timeout t)))\<rparr>, w)"
  by (simp add: unit_ret_def connect_def switch_baudrate_def serial_connect_def serial_open_def
      serial_switch_baudrate_def)

text \<open>
  C16: a failing device read aborts \<open>read\<close> with the transport's own
  exception: on a serial port the raw \<open>SerialException\<close> of pyserial
  propagates, on TCP the socket error is wrapped into \<open>TransportError\<close>.
  The failed read has consumed its device event and its time.
\<close>

theorem read_device_error:
  "can_io t \<Longrightarrow> rx w = RxFail d # rest \<Longrightarrow>
   exec_op (Read tmo) (t, w) =
   Exc (case kind t of Serial _ \<Rightarrow> SerialException | _ \<Rightarrow> TransportError '''')
       (t, w\<lparr>rx := rest, clock := clock w + d\<rparr>)"
  by (auto simp: on_world_def can_io_def transport_defs read_recv_Exc split: kind.splits)

theorem closed_resource_fails_witness:
  "exec_op (Read None) (\<lparr>kind = Serial ''COM1'', timeout = 10, handle = None\<rparr>,
                         \<lparr>rx = [RxData 1 [STX]], clock = 0, tx = [], link_ok = True, tx_ok = True\<rparr>) =
   Exc (TransportError ''Serial port is closed.'')
       (\<lparr>kind = Serial ''COM1'', timeout = 10, handle = None\<rparr>,
        \<lparr>rx = [RxData 1 [STX]], clock = 0, tx = [], link_ok = True, tx_ok = True\<rparr>)"
  using closed_resource_fails [where t = "\<lparr>kind = Serial ''COM1'', timeout = 10, handle = None\<rparr>"
      and cmd = "Read None" and w = "\<lparr>rx = [RxData 1 [STX]], clock = 0, tx = [], link_ok = True, tx_ok = True\<rparr>"]
  by (simp add: fails_when_closed_def closed_error_def serial_closed_def)

theorem tcp_switch_baudrate_noop_witness:
  "exec_op (SwitchBaudrate 9600) (tcp_init (''meter'', 8000) 30, \<lparr>rx = [], clock = 0, tx = [], link_ok = False, tx_ok = False\<rparr>) =
   Normal RetUnit (tcp_init (''meter'', 8000) 30, \<lparr>rx = [], clock = 0, tx = [], link_ok = False, tx_ok = False\<rparr>)"
  using tcp_switch_baudrate_noop [where t = "tcp_init (''meter'', 8000) 30" and address = "(''meter'', 8000)"]
  by (simp add: tcp_init_def)

theorem base_transport_raises_TypeError_witness:
  "exec_op (Send ACK_bytes) (base_init 30, \<lparr>rx = [], clock = 0, tx = [], link_ok = True, tx_ok = True\<rparr>) =
   Exc TypeError (base_init 30, \<lparr>rx = [], clock = 0, tx = [], link_ok = True, tx_ok = True\<rparr>)"
  using base_transport_raises_TypeError [where t = "base_init 30"] by (simp add: base_init_def)

theorem serial_switch_full_timeout_witness:
  "run_ops [Connect, SwitchBaudrate 9600] (serial_init ''COM1'' 10, \<lparr>rx = [], clock = 0, tx = [], link_ok = True, tx_ok = True\<rparr>) =
   Normal [RetUnit, RetUnit] (\<lparr>kind = Serial ''COM1'', timeout = 10, handle = Some (SerialPort 9600 10)\<rparr>,
     \<lparr>rx = [], clock = 0, tx = [], link_ok = True, tx_ok = True\<rparr>)"
  using serial_switch_full_timeout [where t = "serial_init ''COM1'' 10" and port = "''COM1''" and b = 9600
      and w = "\<lparr>rx = [], clock = 0, tx = [], link_ok = True, tx_ok = True\<rparr>"]
  by (simp add: serial_init_def)

theorem read_device_error_witness:
  "exec_op (Read None) (\<lparr>kind = Serial ''COM1'', timeout = 10, handle = Some (SerialPort 300 5)\<rparr>,
                         \<lparr>rx = [RxFail 2, RxData 1 [STX]], clock = 0, tx = [], link_ok = True, tx_ok = True\<rparr>) =
   Exc SerialException (\<lparr>kind = Serial ''COM1'', timeout = 10, handle = Some (SerialPort 300 5)\<rparr>,
                         \<lparr>rx = [RxData 1 [STX]], clock = 2, tx = [], link_ok = True, tx_ok = True\<rparr>)"
  using read_device_error [where t = "\<lparr>kind = Serial ''COM1'', timeout = 10, handle = Some (SerialPort 300 5)\<rparr>"
      and w = "\<lparr>rx = [RxFail 2, RxData 1 [STX]], clock = 0, tx = [], link_ok = True, tx_ok = True\<rparr>"
      and d = 2 and rest = "[RxData 1 [STX]]" and tmo = None]
  by (simp add: can_io_def)

text \<open>
  C18: a peer that closes in the middle of a block does not make \<open>read\<close>
  spin or return a partial message (spec sections 4.2 and 5). After the
  start byte and part of a block, a TCP socket whose peer has closed returns
  \<open>b''\<close> on every \<open>recv\<close>; \<open>read\<close> treats these as no progress and
  raises \<open>TimeoutError\<close> once the deadline has passed, having sent nothing.
\<close>

theorem read_peer_closed_mid_block:
  assumes io: "can_io t" and junk: "\<forall>b\<in>set junk. [b] \<notin> set start_chars" and pay: "payload_ok p"
    and time: "d * (length junk + length p + 1) \<le> timeout t"
    and late: "timeout t < d * (length junk + length p + 1) + n * d'"
    and rx: "rx w = bytes_at d (junk @ STX # p) @ replicate n (RxData d' []) @ rest"
  shows "\<exists>w'. read t tmo w = Exc (read_timeout_error t) w' \<and> tx w' = tx w"
proof -
  let ?w1 = "w\<lparr>rx := bytes_at d p @ replicate n (RxData d' []) @ rest, clock := clock w + d * Suc (length junk)\<rparr>"
  let ?w2 = "?w1\<lparr>rx := replicate n (RxData d' []) @ rest, clock := clock ?w1 + d * length p\<rparr>"
  have skip: "read_block t (clock w) False None [] w = read_block t (clock w) True (Some [STX]) [STX] ?w1"
    using read_block_skip [OF io junk, of STX "clock w" w d p "replicate n (RxData d' []) @ rest" None "[]"]
      time rx by (simp add: algebra_simps)
  have body: "read_block t (clock w) True (Some [STX]) [STX] ?w1 = read_block t (clock w) True (Some [STX]) ([STX] @ p) ?w2"
    using time pay by (intro read_block_body [OF io]) (auto simp: end_chars_payload algebra_simps)
  obtain w' where out: "read_block t (clock w) True (Some [STX]) ([STX] @ p) ?w2 = Exc (read_timeout_error t) w'"
      and tx': "tx w' = tx ?w2"
    using read_block_times_out_started [OF io, of "replicate n (RxData d' [])" "clock w" ?w2 rest
        "Some [STX]" "[STX] @ p"] time late
    by (auto simp: rx_delay_def sum_list_replicate end_chars_def algebra_simps)
  have "read t tmo w = Exc (read_timeout_error t) w'"
    using skip body out by (simp add: read_def read_loop.simps [of t "[]" 0 False None w])
  with tx' show ?thesis by auto
qed

theorem read_peer_closed_mid_block_witness:
  "\<exists>w'. read \<lparr>kind = Tcp (''meter'', 8000), timeout = 10, handle = Some (Socket True)\<rparr> None
          \<lparr>rx = bytes_at 1 [STX, 0x41] @ replicate 10 (RxData 1 []), clock = 0, tx = [],
           link_ok = True, tx_ok = True\<rparr> =
        Exc (read_timeout_error \<lparr>kind = Tcp (''meter'', 8000), timeout = 10, handle = Some (Socket True)\<rparr>) w'
        \<and> tx w' = []"
  using read_peer_closed_mid_block
    [where t = "\<lparr>kind = Tcp (''meter'', 8000), timeout = 10, handle = Some (Socket True)\<rparr>"
       and w = "\<lparr>rx = bytes_at 1 [STX, 0x41] @ replicate 10 (RxData 1 []), clock = 0, tx = [],
                 link_ok = True, tx_ok = True\<rparr>"
       and junk = "[]" and p = "[0x41]" and d = 1 and n = 10 and d' = 1 and rest = "[]" and tmo = None]
  by (simp add: can_io_def payload_ok_def control_defs del: bytes_at_simps)

text \<open>
  C19: socket errors are wrapped on receive but not on send (spec
  section 7, underlying I/O errors). On a connected TCP transport whose
  connection fails, \<open>recv\<close> raises \<open>TransportError\<close> while \<open>send\<close>
  lets the raw \<open>OSError\<close> of \<open>socket.sendall\<close> through.
\<close>

theorem tcp_socket_errors_wrapping:
  assumes "kind t = Tcp address" and "handle t = Some (Socket True)"
    and "\<not> tx_ok w" and "rx w = RxFail d # rest"
  shows "exec_op (Send data) (t, w) = Exc OSError (t, w) \<and>
         exec_op (Recv n) (t, w) = Exc (TransportError '''') (t, w\<lparr>rx := rest, clock := clock w + d\<rparr>)"
  using assms by (simp add: on_world_def transport_defs)

theorem tcp_socket_errors_wrapping_witness:
  "exec_op (Send ACK_bytes) (\<lparr>kind = Tcp (''meter'', 8000), timeout = 30, handle = Some (Socket True)\<rparr>,
     \<lparr>rx = [RxFail 3], clock = 0, tx = [], link_ok = True, tx_ok = False\<rparr>) =
   Exc OSError (\<lparr>kind = Tcp (''meter'', 8000), timeout = 30, handle = Some (Socket True)\<rparr>,
     \<lparr>rx = [RxFail 3], clock = 0, tx = [], link_ok = True, tx_ok = False\<rparr>) \<and>
   exec_op (Recv 1) (\<lparr>kind = Tcp (''meter'', 8000), timeout = 30, handle = Some (Socket True)\<rparr>,
     \<lparr>rx = [RxFail 3], clock = 0, tx = [], link_ok = True, tx_ok = False\<rparr>) =
   Exc (TransportError '''') (\<lparr>kind = Tcp (''meter'', 8000), timeout = 30, handle = Some (Socket True)\<rparr>,
     \<lparr>rx = [], clock = 3, tx = [], link_ok = True, tx_ok = False\<rparr>)"
  using tcp_socket_errors_wrapping
    [where t = "\<lparr>kind = Tcp (''meter'', 8000), timeout = 30, handle = Some (Socket True)\<rparr>"
       and w = "\<lparr>rx = [RxFail 3], clock = 0, tx = [], link_ok = True, tx_ok = False\<rparr>"
       and address = "(''meter'', 8000)" and d = 3 and rest = "[]" and data = ACK_bytes and n = 1]
  by simp

end
