(* ===== verification/Spec2Isabelle.thy ===== *)
theory Spec2Isabelle
  imports Session
begin

text \<open>
  \<^bold>\<open>A verification library for the transport layer of iec62056-21.\<close>

  The program is \<open>src/iec62056_21/transports.py\<close>: the transport layer of a
  client for IEC 62056-21 electricity meters. It has four parts, which call
  each other in this order:
  \<^item> the checksum unit (\<open>utils.calculate_bcc\<close>, \<open>utils.bcc_valid\<close>,
    \<open>utils.add_bcc\<close>) and the protocol constants (\<open>constants.*\<close>). Both
    are outside \<open>src/\<close> and are modelled from the spec (sections 4.1 and 6);
  \<^item> the transport capability: the classes \<open>BaseTransport\<close>,
    \<open>SerialTransport\<close> and \<open>TcpTransport\<close> with \<open>connect\<close>,
    \<open>disconnect\<close>, \<open>send\<close>/\<open>_send\<close>, \<open>recv\<close>/\<open>_recv\<close> and
    \<open>switch_baudrate\<close> (lines 12--30, 175--386);
  \<^item> the block framing engine \<open>BaseTransport.read\<close> (lines 32--131). It
    reads byte by byte through \<open>recv(1)\<close>, validates each block's BCC, and
    answers NACK or ACK through \<open>send\<close>;
  \<^item> the delimiter reader \<open>BaseTransport.simple_read\<close> (lines 133--173).

  \<^bold>\<open>Theories.\<close>
  \<^item> \<open>Prelude\<close>: the byte types (\<open>8 word\<close>), Python's slices as total
    list functions, and the shared lemma collections \<open>slice_simps\<close> and
    \<open>xor_simps\<close>.
  \<^item> \<open>Constants\<close>, \<open>Checksum\<close>: SOH, STX, ETX, EOT, ACK, NACK, CR LF and
    the Latin-1 encoding; \<open>calculate_bcc\<close> as a fold of XOR, \<open>bcc_valid\<close>
    over all bytes but the last, \<open>add_bcc\<close>. The lemmas cover the BCC of a
    concatenation, the round trip \<open>bcc_valid (add_bcc d)\<close>, and the
    detection of any single corrupted byte.
  \<^item> \<open>Transport\<close>: the device and the clock as the record \<open>world\<close>. Its
    \<open>rx\<close> is a script of what successive low-level reads return, each after
    a delay; \<open>clock\<close> is what \<open>time.time()\<close> reads; \<open>tx\<close> logs every
    write; \<open>link_ok\<close> and \<open>tx_ok\<close> say whether opening and writing
    succeed. A transport is the record \<open>transport\<close>: its class
    (\<open>kind\<close>), \<open>self.timeout\<close>, and the handle (\<open>self.port\<close> or
    \<open>self.socket\<close>). Each method is one definition (\<open>serial_connect\<close>,
    \<open>tcp__recv\<close>, ...). The dispatch on the class is \<open>connect\<close>,
    \<open>disconnect\<close>, \<open>send\<close>, \<open>recv\<close> and \<open>switch_baudrate\<close>. Every call
    returns an \<open>outcome\<close>: \<open>Normal\<close> with the new state, \<open>Exc\<close> with the
    raised error and the state at the raise, or \<open>Stall\<close> when the script has
    run out.
  \<^item> \<open>ReadBlock\<close>, \<open>BlockRead\<close>: the engine's inner loop (lines 52--78) as
    \<open>read_block\<close>, its outer loop (lines 50--131) as \<open>read_loop\<close>, and the
    method as \<open>read\<close>. The Python loop variables are the function's
    parameters. \<open>Meter\<close> states what a meter sends (\<open>meter_blocks\<close>) and
    the message it means (\<open>logical_message\<close>); this is the abstract side
    of the engine's refinement lemma.
  \<^item> \<open>SimpleRead\<close>: \<open>simple_read_loop\<close> and \<open>simple_read\<close>.
  \<^item> \<open>Session\<close>: the exposed operations as the datatype \<open>op\<close>. One step
    is \<open>exec_op\<close> on the pair of a transport and the world; a sequence of
    steps is \<open>run_ops\<close>, which stops at the first exception as a caller
    without a handler does.

  \<^bold>\<open>What is proved.\<close> The claims C1--C19 are in \<open>BlockRead\<close>,
  \<open>SimpleRead\<close>, \<open>Session\<close> and below. Each follows a text block that
  states it.
  \<^item> The engine reassembles a message sent in any number of blocks into the
    logical message with a recomputed BCC, sending one ACK per partial block;
    a single block comes back verbatim (C1). Whatever the device sends, a
    returned message starts with SOH or carries a valid BCC (C2).
  \<^item> A corrupted first block is answered by exactly one NACK and read again
    (C3). An SOH message is returned as received, unchecked (C4).
  \<^item> Two defects of the outer loop: a NACKed block is counted, so its correct
    retransmission loses its STX (C5); the start flag is never reset, so a
    stray byte between blocks is collected and the good block it precedes is
    NACKed (C6).
  \<^item> Time: with no start byte, \<open>read\<close> times out having sent nothing (C7);
    its timeout argument is ignored (C8); the BCC byte is read without a
    deadline (C9); a peer that closes mid-block makes \<open>read\<close> time out
    rather than spin or return a partial message (C18).
  \<^item> The delimiter reader returns the delimited frame, on the spec's example
    too (C10). A start delimiter longer than one byte never matches (C11).
  \<^item> The failure contract: a closed resource fails fast (C12), TCP
    \<open>switch_baudrate\<close> is a no-op (C13), a \<open>BaseTransport\<close> raises
    \<open>TypeError\<close> (C14), a serial switch reopens the port with the full
    timeout (C15). Device errors reach the caller of \<open>read\<close> wrapped on TCP
    and raw on serial (C16). TCP wraps socket errors on receive but not on
    send (C19).
  \<^item> A whole TCP session: connect, read, disconnect (C17).

  Scope of these claims: C3, C16 and C18 are shown for the first block or
  the first read of a call; the later blocks run through the same code. C7
  assumes every device read returns; a TCP socket that sends nothing times
  out at the socket level and \<open>read\<close> then raises \<open>TransportError\<close>, the
  path of C16. The frame conditions (what \<open>read\<close> may write, that
  \<open>simple_read\<close> writes nothing) are not stated as claims: they hold of any
  loop that sends only ACK and NACK.

  \<^bold>\<open>Time and fuel.\<close> Time is the \<open>nat\<close> clock of the world. Each
  scripted read advances it by its own delay, so a device that answers
  slowly, late or never can be written down. The loops of \<open>read\<close> and
  \<open>simple_read\<close> may run forever in Python (for example, an endless stream
  of bad blocks is NACKed without bound, spec section 9). In the model each
  iteration consumes one scripted event, which gives the termination measure.
  A run that exhausts its script is \<open>Stall\<close>. That is not a result, and
  every claim that \<open>read\<close> returns or raises is proved for a script long
  enough to reach the answer, never only "if it returns".

  \<^bold>\<open>Not modelled.\<close> Logging and \<open>__repr__\<close> are not modelled,
  since they are observability only. The pyserial and socket libraries are
  not modelled beyond their effect on the world: \<open>serial.Serial\<close> opens or
  raises, \<open>read\<close>/\<open>recv\<close> return the next scripted bytes or raise,
  \<open>write\<close>/\<open>sendall\<close> append to the log or raise. The socket's own
  timeout is a scripted delay. Threads are not modelled either, because
  the spec assumes one caller per transport.
\<close>

text \<open>
  C17: a whole TCP session (spec section 6, exposed operations). A freshly
  constructed TCP transport whose peer accepts the connection and sends a
  meter message in one or more blocks goes through \<open>connect()\<close>,
  \<open>read()\<close> and \<open>disconnect()\<close> without error. The read returns the
  logical message with its recomputed BCC, one ACK is written per partial
  block, and the transport ends with no socket.
\<close>

theorem tcp_session_reads_message:
  assumes "link_ok w" and "tx_ok w" and "ps \<noteq> []"
    and "\<forall>p\<in>set ps. payload_ok p"
    and "\<forall>b\<in>set junk. [b] \<notin> set start_chars"
    and "d * (length junk + length (hd ps) + 2) \<le> tmo"
    and "\<forall>p\<in>set ps. d * (length p + 2) \<le> tmo"
    and "rx w = bytes_at d (junk @ concat (meter_blocks ps)) @ rest"
  shows "run_ops [Connect, Read None, Disconnect] (tcp_init address tmo, w) =
         Normal [RetUnit, RetBytes (add_bcc (logical_message ps)), RetUnit]
           (tcp_init address tmo\<lparr>handle := None\<rparr>,
            w\<lparr>rx := rest, clock := clock w + d * length (junk @ concat (meter_blocks ps)),
              tx := tx w @ replicate (length ps - 1) ACK_bytes\<rparr>)"
proof -
  let ?t = "tcp_init address tmo\<lparr>handle := Some (Socket True)\<rparr>"
  have conn: "exec_op Connect (tcp_init address tmo, w) = Normal RetUnit (?t, w)"
    using assms(1) by (simp add: unit_ret_def connect_def tcp_init_def tcp_connect_def get_socket_def)
  have io: "can_io ?t" by (simp add: can_io_def tcp_init_def)
  have rd: "read ?t None w =
         Normal (add_bcc (logical_message ps))
           (w\<lparr>rx := rest, clock := clock w + d * length (junk @ concat (meter_blocks ps)),
              tx := tx w @ replicate (length ps - 1) ACK_bytes\<rparr>)"
    using assms(2-8) by (intro read_stream [OF io]) (simp_all add: tcp_init_def)
  show ?thesis
    using conn rd
    by (simp add: on_world_def unit_ret_def disconnect_def tcp_disconnect_def tcp_init_def)
qed

theorem tcp_session_reads_message_witness:
  "run_ops [Connect, Read None, Disconnect]
     (tcp_init (''meter'', 8000) 30,
      \<lparr>rx = bytes_at 1 ([0x30] @ concat (meter_blocks [[0x41], [0x42]])), clock = 0, tx = [],
       link_ok = True, tx_ok = True\<rparr>) =
   Normal [RetUnit, RetBytes [STX, 0x41, 0x0D, 0x0A, 0x42, ETX, 0x05], RetUnit]
     (\<lparr>kind = Tcp (''meter'', 8000), timeout = 30, handle = None\<rparr>,
      \<lparr>rx = [], clock = 9, tx = [ACK_bytes], link_ok = True, tx_ok = True\<rparr>)"
  using tcp_session_reads_message
    [where w = "\<lparr>rx = bytes_at 1 ([0x30] @ concat (meter_blocks [[0x41], [0x42]])), clock = 0, tx = [],
                 link_ok = True, tx_ok = True\<rparr>"
       and ps = "[[0x41], [0x42]]" and junk = "[0x30]" and d = 1 and tmo = 30 and rest = "[]"
       and address = "(''meter'', 8000)"]
  by (simp add: payload_ok_def start_chars_def control_defs logical_message_def meter_block_def
      add_bcc_def tcp_init_def del: bytes_at_simps)

end
